theory Spec2Isabelle
  imports Main
begin

section \<open>Python values\<close>

text \<open>
  The module handles decoded JSON throughout: webhook bodies, gateway replies and the
  notification dictionaries built from them.  A Python \<open>str\<close> is modelled as a list of
  8-bit characters (code points below 256, the range of a decoded HTTP header), a
  \<open>dict\<close> as an association list with distinct keys.  JSON numbers with a fraction
  (Python floats) are outside the model.
\<close>

datatype json =
    JNull
  | JBool bool
  | JInt int
  | JStr string
  | JList "json list"
  | JDict "(string \<times> json) list"

text \<open>Exceptions are values.  The message of an exception is never read by the module
  (only logged), so it is not carried.\<close>

datatype py_error = AttributeError | TypeError | KeyError | IndexError | ValidationError

type_synonym 'a result = "py_error + 'a"

definition bind :: "'a result \<Rightarrow> ('a \<Rightarrow> 'b result) \<Rightarrow> 'b result" where
  "bind r f = (case r of Inl e \<Rightarrow> Inl e | Inr v \<Rightarrow> f v)"

text \<open>Truth value testing: \<open>if x:\<close>, \<open>not x\<close>, \<open>x or y\<close>.\<close>

fun truthy :: "json \<Rightarrow> bool" where
  "truthy JNull = False"
| "truthy (JBool b) = b"
| "truthy (JInt i) = (i \<noteq> 0)"
| "truthy (JStr s) = (s \<noteq> [])"
| "truthy (JList xs) = (xs \<noteq> [])"
| "truthy (JDict kvs) = (kvs \<noteq> [])"

definition py_or :: "json \<Rightarrow> json \<Rightarrow> json" where
  "py_or a b = (if truthy a then a else b)"

text \<open>\<open>d.get(k, default)\<close> on a value known to be a dict, and on an arbitrary value, where
  anything but a dict has no attribute \<open>get\<close>.\<close>

definition dict_get :: "(string \<times> json) list \<Rightarrow> string \<Rightarrow> json \<Rightarrow> json" where
  "dict_get d k dflt = (case map_of d k of None \<Rightarrow> dflt | Some v \<Rightarrow> v)"

fun py_get :: "json \<Rightarrow> string \<Rightarrow> json \<Rightarrow> json result" where
  "py_get (JDict d) k dflt = Inr (dict_get d k dflt)"
| "py_get _ k dflt = Inl AttributeError"

text \<open>\<open>str.lower()\<close> and \<open>str.upper()\<close> on code points below 256: the ASCII letters, and
  the Latin-1 letters \<open>0xC0..0xDE\<close> (without the multiplication sign \<open>0xD7\<close>) and
  \<open>0xE0..0xFE\<close> (without the division sign \<open>0xF7\<close>).  The three code points whose upper
  case lies outside the range (\<open>0xB5\<close>, \<open>0xDF\<close>, \<open>0xFF\<close>) are left as they are by
  \<open>upper\<close>; the module compares the result with \<open>POST\<close> only.\<close>

definition lower_char :: "char \<Rightarrow> char" where
  "lower_char c =
     (let n = (of_char c :: nat)
      in if (65 \<le> n \<and> n \<le> 90) \<or> (192 \<le> n \<and> n \<le> 222 \<and> n \<noteq> 215)
         then char_of (n + 32) else c)"

definition upper_char :: "char \<Rightarrow> char" where
  "upper_char c =
     (let n = (of_char c :: nat)
      in if (97 \<le> n \<and> n \<le> 122) \<or> (224 \<le> n \<and> n \<le> 254 \<and> n \<noteq> 247)
         then char_of (n - 32) else c)"

definition lower :: "string \<Rightarrow> string" where
  "lower s = map lower_char s"

definition upper :: "string \<Rightarrow> string" where
  "upper s = map upper_char s"

fun py_lower :: "json \<Rightarrow> string result" where
  "py_lower (JStr s) = Inr (lower s)"
| "py_lower _ = Inl AttributeError"

text \<open>\<open>str(x)\<close>, which is also what \<open>%s\<close> formatting inserts.\<close>

definition digit_char :: "nat \<Rightarrow> char" where
  "digit_char d = char_of (48 + d)"

fun digits :: "nat \<Rightarrow> string" where
  "digits n = (if n < 10 then [digit_char n] else digits (n div 10) @ [digit_char (n mod 10)])"

definition str_int :: "int \<Rightarrow> string" where
  "str_int i = (if i < 0 then CHR ''-'' # digits (nat (- i)) else digits (nat i))"

definition hex_char :: "nat \<Rightarrow> char" where
  "hex_char d = (if d < 10 then char_of (48 + d) else char_of (87 + d))"

definition printable :: "char \<Rightarrow> bool" where
  "printable c = (let n = (of_char c :: nat) in (32 \<le> n \<and> n < 127) \<or> (161 \<le> n \<and> n \<noteq> 173))"

definition repr_char :: "char \<Rightarrow> char \<Rightarrow> string" where
  "repr_char q c =
     (if c = q \<or> c = CHR 0x5C then [CHR 0x5C, c]
      else if c = CHR 0x09 then [CHR 0x5C, CHR ''t'']
      else if c = CHR 0x0A then [CHR 0x5C, CHR ''n'']
      else if c = CHR 0x0D then [CHR 0x5C, CHR ''r'']
      else if printable c then [c]
      else [CHR 0x5C, CHR ''x'', hex_char (of_char c div 16), hex_char (of_char c mod 16)])"

definition repr_str :: "string \<Rightarrow> string" where
  "repr_str s =
     (let q = (if CHR 0x27 \<in> set s \<and> CHR 0x22 \<notin> set s then CHR 0x22 else CHR 0x27)
      in [q] @ concat (map (repr_char q) s) @ [q])"

definition join :: "string \<Rightarrow> string list \<Rightarrow> string" where
  "join sep xs = (case xs of [] \<Rightarrow> [] | y # ys \<Rightarrow> y @ concat (map (\<lambda>z. sep @ z) ys))"

fun py_repr :: "json \<Rightarrow> string" where
  "py_repr JNull = ''None''"
| "py_repr (JBool b) = (if b then ''True'' else ''False'')"
| "py_repr (JInt i) = str_int i"
| "py_repr (JStr s) = repr_str s"
| "py_repr (JList xs) = ''['' @ join '', '' (map py_repr xs) @ '']''"
| "py_repr (JDict kvs) =
     ''{'' @ join '', '' (map (\<lambda>kv. repr_str (fst kv) @ '': '' @ py_repr (snd kv)) kvs) @ ''}''"

fun py_str :: "json \<Rightarrow> string" where
  "py_str (JStr s) = s"
| "py_str v = py_repr v"


section \<open>Provider configuration\<close>

datatype provider_state = Disabled | Enabled | Test

text \<open>An unset \<open>Char\<close> or \<open>Selection\<close> field of the ORM reads \<open>False\<close>: \<open>None\<close> here.\<close>

record provider =
  name :: string
  code :: string
  state :: provider_state
  myfatoorah_secret_key :: "string option"
  myfatoorah_test_secret_key :: "string option"
  myfatoorah_country_code :: "string option"
  myfatoorah_webhook_secret :: "string option"
  myfatoorah_webhook_enabled :: bool

definition field_truthy :: "string option \<Rightarrow> bool" where
  "field_truthy f = (case f of None \<Rightarrow> False | Some s \<Rightarrow> s \<noteq> [])"

definition field_value :: "string option \<Rightarrow> json" where
  "field_value f = (case f of None \<Rightarrow> JBool False | Some s \<Rightarrow> JStr s)"

definition MYFATOORAH_LIVE_URLS :: "(string \<times> string) list" where
  "MYFATOORAH_LIVE_URLS =
     [(''SA'', ''https://api-sa.myfatoorah.com''),
      (''AE'', ''https://api-ae.myfatoorah.com''),
      (''QA'', ''https://api-qa.myfatoorah.com''),
      (''EG'', ''https://api-eg.myfatoorah.com''),
      (''KW'', ''https://api.myfatoorah.com''),
      (''BH'', ''https://api.myfatoorah.com''),
      (''JO'', ''https://api.myfatoorah.com''),
      (''OM'', ''https://api.myfatoorah.com'')]"

definition MYFATOORAH_TEST_URL :: string where
  "MYFATOORAH_TEST_URL = ''https://apitest.myfatoorah.com''"

definition myfatoorah_get_api_url :: "provider \<Rightarrow> string" where
  "myfatoorah_get_api_url p =
     (if state p = Test then MYFATOORAH_TEST_URL
      else let country = (if field_truthy (myfatoorah_country_code p)
                          then the (myfatoorah_country_code p) else ''SA'')
           in case map_of MYFATOORAH_LIVE_URLS country of
                Some u \<Rightarrow> u
              | None \<Rightarrow> ''https://api-sa.myfatoorah.com'')"

definition myfatoorah_get_api_key :: "provider \<Rightarrow> string result" where
  "myfatoorah_get_api_key p =
     (let key = (if state p = Test then myfatoorah_test_secret_key p
                 else myfatoorah_secret_key p)
      in if \<not> field_truthy key then Inl ValidationError else Inr (the key))"

section \<open>Gateway client\<close>

text \<open>The HTTP transport (\<open>requests.post\<close>, \<open>requests.get\<close>) is a parameter: it maps the
  request sent to what comes back.  \<open>Response c None\<close> is a reply whose body
  \<open>response.json()\<close> rejects.\<close>

record http_request =
  req_method :: string
  req_url :: string
  req_headers :: "(string \<times> string) list"
  req_json :: "json option"

datatype http_outcome =
    Timeout
  | ConnectionError
  | RequestException
  | Response nat "json option"

type_synonym transport = "http_request \<Rightarrow> http_outcome"

text \<open>The generator joined into the error text: iterating \<open>ValidationErrors\<close>, keeping the
  dicts, reading their \<open>Error\<close>.  \<open>str.join\<close> accepts only strings.\<close>

fun error_of :: "json \<Rightarrow> string result" where
  "error_of (JStr s) = Inr s"
| "error_of _ = Inl TypeError"

fun collect_errors :: "json list \<Rightarrow> string list result" where
  "collect_errors [] = Inr []"
| "collect_errors (JDict d # errs) =
     bind (error_of (dict_get d ''Error'' (JStr []))) (\<lambda>e.
     bind (collect_errors errs) (\<lambda>es. Inr (e # es)))"
| "collect_errors (_ # errs) = collect_errors errs"

fun validation_details :: "json \<Rightarrow> string result" where
  "validation_details (JList errs) = bind (collect_errors errs) (\<lambda>es. Inr (join ''; '' es))"
| "validation_details (JStr s) = Inr []"
| "validation_details (JDict d) = Inr []"
| "validation_details _ = Inl TypeError"

text \<open>The branch that ends in \<open>raise ValidationError\<close>: what it evaluates on the way can
  raise first.\<close>

definition gateway_rejected :: "json \<Rightarrow> json result" where
  "gateway_rejected response_data =
     bind (py_get response_data ''Message'' (JStr ''Unknown error'')) (\<lambda>error_message.
     bind (py_get response_data ''ValidationErrors'' JNull) (\<lambda>validation_errors.
     bind (if truthy validation_errors then validation_details validation_errors else Inr [])
       (\<lambda>details. Inl ValidationError)))"

text \<open>\<open>_myfatoorah_make_request\<close> in its three steps: the request that is built (no
  request at all when the API key is missing), the transport, and the reading of what
  came back.\<close>

definition build_request :: "provider \<Rightarrow> string \<Rightarrow> json \<Rightarrow> string \<Rightarrow> http_request result" where
  "build_request p endpoint payload method =
     (let api_url = myfatoorah_get_api_url p
      in bind (myfatoorah_get_api_key p) (\<lambda>api_key.
         let url = api_url @ endpoint;
             headers = [(''Authorization'', ''Bearer '' @ api_key),
                        (''Content-Type'', ''application/json''),
                        (''Accept'', ''application/json'')]
         in Inr (if upper method = ''POST''
                 then \<lparr>req_method = ''POST'', req_url = url, req_headers = headers,
                       req_json = Some payload\<rparr>
                 else \<lparr>req_method = ''GET'', req_url = url, req_headers = headers,
                       req_json = None\<rparr>)))"

definition read_response :: "http_outcome \<Rightarrow> json result" where
  "read_response outcome =
     (case outcome of
        Timeout \<Rightarrow> Inl ValidationError
      | ConnectionError \<Rightarrow> Inl ValidationError
      | RequestException \<Rightarrow> Inl ValidationError
      | Response status_code None \<Rightarrow> Inl ValidationError
      | Response status_code (Some response_data) \<Rightarrow>
          if status_code \<noteq> 200 then gateway_rejected response_data
          else bind (py_get response_data ''IsSuccess'' JNull) (\<lambda>is_success.
               if \<not> truthy is_success then gateway_rejected response_data
               else py_get response_data ''Data'' (JDict [])))"

definition myfatoorah_make_request ::
    "transport \<Rightarrow> provider \<Rightarrow> string \<Rightarrow> json \<Rightarrow> string \<Rightarrow> json result" where
  "myfatoorah_make_request http p endpoint payload method =
     bind (build_request p endpoint payload method) (\<lambda>request. read_response (http request))"

text \<open>The requests a call of \<open>_myfatoorah_make_request\<close> puts on the network: the one it
  built, none when the API key is missing.\<close>

definition requests_sent :: "provider \<Rightarrow> string \<Rightarrow> json \<Rightarrow> string \<Rightarrow> http_request list" where
  "requests_sent p endpoint payload method =
     (case build_request p endpoint payload method of Inr request \<Rightarrow> [request] | Inl e \<Rightarrow> [])"

text \<open>The status call both the locator and the reconciler make, and the requests it
  puts on the network.\<close>

definition get_payment_status :: "transport \<Rightarrow> provider \<Rightarrow> json \<Rightarrow> string \<Rightarrow> json result" where
  "get_payment_status http p key key_type =
     myfatoorah_make_request http p ''/v2/GetPaymentStatus''
       (JDict [(''Key'', key), (''KeyType'', JStr key_type)]) ''POST''"

definition status_requests :: "provider \<Rightarrow> json \<Rightarrow> string \<Rightarrow> http_request list" where
  "status_requests p key key_type =
     requests_sent p ''/v2/GetPaymentStatus''
       (JDict [(''Key'', key), (''KeyType'', JStr key_type)]) ''POST''"

section \<open>Signature verifier\<close>

text \<open>\<open>hmac.new(key, msg, hashlib.sha256)\<close> is a parameter, from key bytes and message
  bytes to the 32 digest bytes; \<open>hexdigest\<close>, \<open>str.encode\<close> and \<open>hmac.compare_digest\<close> are
  written out.  \<open>compare_digest\<close> on two \<open>str\<close> raises \<open>TypeError\<close> unless both are ASCII.\<close>

type_synonym mac = "string \<Rightarrow> string \<Rightarrow> string"

definition encode_utf8 :: "string \<Rightarrow> string" where
  "encode_utf8 s =
     concat (map (\<lambda>c. let n = (of_char c :: nat)
                       in if n < 128 then [c]
                          else [char_of (192 + n div 64), char_of (128 + n mod 64)]) s)"

definition hexdigest :: "string \<Rightarrow> string" where
  "hexdigest bs =
     concat (map (\<lambda>c. [hex_char (of_char c div 16), hex_char (of_char c mod 16)]) bs)"

definition is_ascii :: "string \<Rightarrow> bool" where
  "is_ascii s = list_all (\<lambda>c. (of_char c :: nat) < 128) s"

definition compare_digest :: "string \<Rightarrow> string \<Rightarrow> bool result" where
  "compare_digest a b = (if is_ascii a \<and> is_ascii b then Inr (a = b) else Inl TypeError)"

definition myfatoorah_verify_webhook_signature ::
    "mac \<Rightarrow> provider \<Rightarrow> string \<Rightarrow> string \<Rightarrow> bool result" where
  "myfatoorah_verify_webhook_signature hmac_sha256 p raw_body signature =
     (if \<not> field_truthy (myfatoorah_webhook_secret p) then Inr False
      else let expected_signature =
                 hexdigest (hmac_sha256 (encode_utf8 (the (myfatoorah_webhook_secret p))) raw_body)
           in compare_digest expected_signature signature)"


section \<open>Transactions\<close>

text \<open>
  A transaction carries the fields this module reads and writes, and the lifecycle state
  owned by the payment framework (type \<open>'l\<close>).  The four transition primitives
  \<open>_set_done\<close>, \<open>_set_pending\<close>, \<open>_set_canceled\<close> and \<open>_set_error\<close> belong to the
  framework as well: they are a parameter, a function from the requested transition to
  its effect on the lifecycle state.
\<close>

datatype action = SetDone | SetPending | SetCanceled string | SetError string

type_synonym 'l primitives = "action \<Rightarrow> 'l \<Rightarrow> 'l"

record 'l transaction =
  tx_id :: nat
  reference :: string
  provider_reference :: "string option"
  provider_code :: string
  provider_id :: provider
  lifecycle :: 'l

text \<open>The log of gateway calls holds the requests that went out.\<close>

type_synonym gateway_call = http_request

text \<open>\<open>search(domain, limit=1)\<close> on the transaction table, listed in the table's default
  order: the first record that matches, if any.\<close>

definition search_reference :: "'l transaction list \<Rightarrow> json \<Rightarrow> 'l transaction option" where
  "search_reference txs v =
     find (\<lambda>t. JStr (reference t) = v \<and> provider_code t = ''myfatoorah'') txs"

definition search_provider_reference ::
    "'l transaction list \<Rightarrow> string \<Rightarrow> 'l transaction option" where
  "search_provider_reference txs s =
     find (\<lambda>t. provider_reference t = Some s \<and> provider_code t = ''myfatoorah'') txs"

section \<open>Transaction locator\<close>

text \<open>The two local lookups, by reference and then by invoice id, as the locator writes
  them for the payload and again for each status reply.\<close>

definition local_tiers :: "'l transaction list \<Rightarrow> json \<Rightarrow> json \<Rightarrow> 'l transaction option" where
  "local_tiers txs ref invoice_id =
     (case (if truthy ref then search_reference txs ref else None) of
        Some t \<Rightarrow> Some t
      | None \<Rightarrow>
          if truthy invoice_id then search_provider_reference txs (py_str invoice_id)
          else None)"

text \<open>The loop over the providers: every exception of an iteration is caught and the
  loop goes on; the first provider whose reply names a local transaction ends it.\<close>

fun query_providers ::
    "transport \<Rightarrow> 'l transaction list \<Rightarrow> json \<Rightarrow> provider list
      \<Rightarrow> 'l transaction option \<times> gateway_call list" where
  "query_providers http txs payment_id [] = (None, [])"
| "query_providers http txs payment_id (p # ps) =
     (let found =
            bind (get_payment_status http p payment_id ''PaymentId'') (\<lambda>status_data.
            bind (py_get status_data ''CustomerReference'' JNull) (\<lambda>ref.
            bind (py_get status_data ''InvoiceId'' JNull) (\<lambda>inv_id.
            Inr (local_tiers txs ref inv_id))))
      in case found of
           Inr (Some t) \<Rightarrow> (Some t, status_requests p payment_id ''PaymentId'')
         | _ \<Rightarrow> (case query_providers http txs payment_id ps of
                    (res, cs) \<Rightarrow> (res, status_requests p payment_id ''PaymentId'' @ cs)))"

definition status_providers :: "provider list \<Rightarrow> provider list" where
  "status_providers ps =
     filter (\<lambda>p. code p = ''myfatoorah'' \<and> (state p = Enabled \<or> state p = Test)) ps"

text \<open>\<open>_get_tx_from_notification_data\<close>.  \<open>self\<close> is the recordset the method is called
  on, which the framework's base implementation (the \<open>super()\<close> call) returns.  The
  result is the recordset found, or \<open>ValidationError\<close>, with the status requests sent.\<close>

definition get_tx_from_notification_data ::
    "transport \<Rightarrow> provider list \<Rightarrow> 'l transaction list \<Rightarrow> 'l transaction list \<Rightarrow> string
      \<Rightarrow> (string \<times> json) list \<Rightarrow> 'l transaction list result \<times> gateway_call list" where
  "get_tx_from_notification_data http providers txs self provider_code' notification_data =
     (let tx = self
      in if provider_code' \<noteq> ''myfatoorah'' \<or> length tx = 1 then (Inr tx, [])
         else
           let ref = dict_get notification_data ''CustomerReference'' JNull;
               payment_id = dict_get notification_data ''paymentId'' JNull;
               invoice_id = dict_get notification_data ''InvoiceId'' JNull
           in case local_tiers txs ref invoice_id of
                Some t \<Rightarrow> (Inr [t], [])
              | None \<Rightarrow>
                  if truthy payment_id
                  then (case query_providers http txs payment_id (status_providers providers) of
                          (Some t, cs) \<Rightarrow> (Inr [t], cs)
                        | (None, cs) \<Rightarrow> (Inl ValidationError, cs))
                  else (Inl ValidationError, []))"

section \<open>Status reconciler\<close>

text \<open>A run of the reconciler: the transaction as it stands, the status requests sent, the
  transitions requested (in order), and the exception that ended the run, if one did.\<close>

record 'l run =
  tx :: "'l transaction"
  calls :: "gateway_call list"
  applied :: "action list"
  raised :: "py_error option"

definition set_state :: "'l primitives \<Rightarrow> action \<Rightarrow> 'l run \<Rightarrow> 'l run" where
  "set_state prim a r =
     r\<lparr>tx := (tx r)\<lparr>lifecycle := prim a (lifecycle (tx r))\<rparr>, applied := applied r @ [a]\<rparr>"

definition raise :: "py_error \<Rightarrow> 'l run \<Rightarrow> 'l run" where
  "raise e r = r\<lparr>raised := Some e\<rparr>"

text \<open>\<open>transactions[-1]\<close> on a value that passed \<open>if transactions:\<close>.\<close>

fun py_last :: "json \<Rightarrow> json result" where
  "py_last (JList xs) = (if xs = [] then Inl IndexError else Inr (last xs))"
| "py_last (JStr s) = (if s = [] then Inl IndexError else Inr (JStr [last s]))"
| "py_last (JDict d) = Inl KeyError"
| "py_last _ = Inl TypeError"

text \<open>The latest entry of \<open>InvoiceTransactions\<close> and the transaction-level status: the
  entry's \<open>TransactionStatus\<close>, or the invoice-level status when there is no entry.\<close>

definition latest_status ::
    "json \<Rightarrow> string \<Rightarrow> ((string \<times> json) list option \<times> string) result" where
  "latest_status transactions invoice_status =
     (if truthy transactions
      then bind (py_last transactions) (\<lambda>latest_tx.
           case latest_tx of
             JDict d \<Rightarrow>
               bind (py_lower (dict_get d ''TransactionStatus'' (JStr [])))
                 (\<lambda>tx_status. Inr (Some d, tx_status))
           | _ \<Rightarrow> Inl AttributeError)
      else Inr (None, invoice_status))"

text \<open>The mapping of the gateway's statuses to transitions, an \<open>if\<close>/\<open>elif\<close> chain: the
  primitive each branch calls, with its message.  The messages are the source strings,
  untranslated.\<close>

definition status_action ::
    "string \<Rightarrow> string \<Rightarrow> (string \<times> json) list option \<Rightarrow> action" where
  "status_action invoice_status tx_status latest_tx =
     (if invoice_status = ''paid'' \<or> tx_status = ''succss'' then SetDone
      else if invoice_status \<in> {''pending'', ''initiated''}
              \<or> tx_status \<in> {''pending'', ''initiated''}
      then SetPending
      else if invoice_status \<in> {''expired'', ''canceled''}
              \<or> tx_status \<in> {''expired'', ''canceled''}
      then SetCanceled (''MyFatoorah: Payment was ''
             @ (if invoice_status \<noteq> [] then invoice_status else tx_status) @ ''.'')
      else if invoice_status = ''failed'' \<or> tx_status = ''failed''
      then let error_msg =
                 (case latest_tx of
                    None \<Rightarrow> JStr []
                  | Some d \<Rightarrow>
                      if d = [] then JStr []
                      else py_or (dict_get d ''Error'' (JStr []))
                                 (dict_get d ''ErrorCode'' (JStr [])))
           in SetError (''MyFatoorah: Payment failed. '' @ py_str error_msg)
      else SetError (''MyFatoorah: Received unknown payment status: ''
             @ (if invoice_status \<noteq> [] then invoice_status
                else if tx_status \<noteq> [] then tx_status else ''unknown'')))"

text \<open>The write of \<open>provider_reference\<close> from the reply's \<open>InvoiceId\<close>.\<close>

definition backfill :: "json \<Rightarrow> 'l run \<Rightarrow> 'l run" where
  "backfill invoice_id_resp r =
     (if truthy invoice_id_resp \<and> \<not> field_truthy (provider_reference (tx r))
      then r\<lparr>tx := (tx r)\<lparr>provider_reference := Some (py_str invoice_id_resp)\<rparr>\<rparr>
      else r)"

text \<open>From \<open># Extract status\<close> on: read the reply, backfill \<open>provider_reference\<close>, map.\<close>

definition process_status :: "'l primitives \<Rightarrow> json \<Rightarrow> 'l run \<Rightarrow> 'l run" where
  "process_status prim status_data r =
     (case status_data of
        JDict d \<Rightarrow>
          (case py_lower (dict_get d ''InvoiceStatus'' (JStr [])) of
             Inl e \<Rightarrow> raise e r
           | Inr invoice_status \<Rightarrow>
               let invoice_id_resp = dict_get d ''InvoiceId'' JNull;
                   r1 = backfill invoice_id_resp r;
                   transactions = dict_get d ''InvoiceTransactions'' (JList [])
               in case latest_status transactions invoice_status of
                    Inl e \<Rightarrow> raise e r1
                  | Inr (latest_tx, tx_status) \<Rightarrow>
                      set_state prim (status_action invoice_status tx_status latest_tx) r1)
      | _ \<Rightarrow> raise AttributeError r)"

text \<open>The status call and its \<open>except ValidationError\<close>.\<close>

definition verify_status ::
    "'l primitives \<Rightarrow> transport \<Rightarrow> json \<Rightarrow> string \<Rightarrow> 'l run \<Rightarrow> 'l run" where
  "verify_status prim http key key_type r =
     (let r1 = r\<lparr>calls := calls r
                        @ status_requests (provider_id (tx r)) (JStr (py_str key)) key_type\<rparr>
      in case get_payment_status http (provider_id (tx r)) (JStr (py_str key)) key_type of
           Inl ValidationError \<Rightarrow>
             set_state prim (SetError ''MyFatoorah: Failed to verify payment status.'') r1
         | Inl e \<Rightarrow> raise e r1
         | Inr status_data \<Rightarrow> process_status prim status_data r1)"

text \<open>The key of the status call: \<open>paymentId\<close> first, then the payload's \<open>InvoiceId\<close> or
  the transaction's \<open>provider_reference\<close>; \<open>None\<close> when there is neither.\<close>

definition status_key ::
    "(string \<times> json) list \<Rightarrow> 'l transaction \<Rightarrow> (json \<times> string) option" where
  "status_key notification_data self =
     (let payment_id = dict_get notification_data ''paymentId'' JNull;
          invoice_id = py_or (dict_get notification_data ''InvoiceId'' JNull)
                             (field_value (provider_reference self))
      in if truthy payment_id then Some (payment_id, ''PaymentId'')
         else if truthy invoice_id then Some (invoice_id, ''InvoiceId'')
         else None)"

text \<open>\<open>_process_notification_data\<close>.  The framework's base implementation, called first,
  changes nothing.\<close>

definition process_notification_data ::
    "'l primitives \<Rightarrow> transport \<Rightarrow> (string \<times> json) list \<Rightarrow> 'l transaction \<Rightarrow> 'l run" where
  "process_notification_data prim http notification_data self =
     (let r = \<lparr>tx = self, calls = [], applied = [], raised = None\<rparr>
      in if provider_code self \<noteq> ''myfatoorah'' then r
         else
           case status_key notification_data self of
             Some (key, key_type) \<Rightarrow> verify_status prim http key key_type r
           | None \<Rightarrow>
               set_state prim
                 (SetError ''MyFatoorah: Missing payment identification in the notification.'') r)"

section \<open>Invoice creation\<close>

text \<open>\<open>_get_specific_processing_values\<close> from the \<open>SendPayment\<close> call on.  The payload
  assembled before it (callback addresses, customer data, invoice lines with amounts
  rounded as floats) is passed in; \<open>res\<close> is what the framework's base implementation
  returns.  The result is paired with the transaction as the method leaves it.\<close>

definition get_specific_processing_values ::
    "transport \<Rightarrow> (string \<times> json) list \<Rightarrow> json \<Rightarrow> 'l transaction
      \<Rightarrow> (string \<times> json) list result \<times> 'l transaction" where
  "get_specific_processing_values http res payload self =
     (if provider_code self \<noteq> ''myfatoorah'' then (Inr res, self)
      else
        case myfatoorah_make_request http (provider_id self) ''/v2/SendPayment'' payload ''POST'' of
          Inl e \<Rightarrow> (Inl e, self)
        | Inr response_data \<Rightarrow>
            (case bind (py_get response_data ''InvoiceURL'' JNull) (\<lambda>invoice_url.
                  bind (py_get response_data ''InvoiceId'' JNull) (\<lambda>invoice_id.
                  Inr (invoice_url, invoice_id))) of
               Inl e \<Rightarrow> (Inl e, self)
             | Inr (invoice_url, invoice_id) \<Rightarrow>
                 if \<not> truthy invoice_url then (Inl ValidationError, self)
                 else (Inr [(''api_url'', invoice_url), (''reference'', JStr (reference self))],
                       self\<lparr>provider_reference :=
                              Some (if truthy invoice_id then py_str invoice_id else [])\<rparr>)))"

section \<open>Endpoints\<close>

text \<open>What an endpoint works in: the framework's primitives, the transport, the library
  functions \<open>hmac.new\<close> and \<open>json.loads\<close> (\<open>None\<close> when it raises \<open>ValueError\<close>), and the
  provider and transaction tables.\<close>

record 'l world =
  primitives :: "'l primitives"
  network :: transport
  hmac_sha256 :: mac
  json_loads :: "string \<Rightarrow> json option"
  providers :: "provider list"
  transactions :: "'l transaction list"

record request =
  raw_body :: string
  headers :: "(string \<times> string) list"

datatype response = JsonResponse nat "(string \<times> json) list" | Redirect string

text \<open>What a handler leaves behind: the transaction table, the status requests sent and the
  notes posted on transactions (transaction id and text).\<close>

record 'l effects =
  stored :: "'l transaction list"
  called :: "gateway_call list"
  posted :: "(nat \<times> string) list"

definition store_tx :: "'l transaction \<Rightarrow> 'l transaction list \<Rightarrow> 'l transaction list" where
  "store_tx t' txs = map (\<lambda>t. if tx_id t = tx_id t' then t' else t) txs"

text \<open>Header names are matched without regard to case.\<close>

definition headers_get :: "(string \<times> string) list \<Rightarrow> string \<Rightarrow> string \<Rightarrow> string" where
  "headers_get hs k dflt =
     (case find (\<lambda>h. lower (fst h) = lower k) hs of None \<Rightarrow> dflt | Some h \<Rightarrow> snd h)"

text \<open>Modelled from the spec: the framework's \<open>_handle_notification_data\<close>, which is not
  among the sources.  The spec gives the data flow as endpoint, then transaction locator,
  then status reconciler: called on the recordset the locator returned, the method runs
  the reconciler on its transaction and the transaction is written back.\<close>

definition handle_notification_data ::
    "'l world \<Rightarrow> 'l transaction list \<Rightarrow> (string \<times> json) list \<Rightarrow> unit result \<times> 'l effects" where
  "handle_notification_data w self notification_data =
     (case self of
        [t] \<Rightarrow>
          (let r = process_notification_data (primitives w) (network w) notification_data t
           in (case raised r of None \<Rightarrow> Inr () | Some e \<Rightarrow> Inl e,
               \<lparr>stored = store_tx (tx r) (transactions w), called = calls r, posted = []\<rparr>))
      | _ \<Rightarrow> (Inl ValidationError, \<lparr>stored = transactions w, called = [], posted = []\<rparr>))"

text \<open>Locator, then reconciler, as all three endpoints call them.  The locator is called
  on the empty recordset.\<close>

definition locate_and_handle ::
    "'l world \<Rightarrow> (string \<times> json) list \<Rightarrow> unit result \<times> 'l effects" where
  "locate_and_handle w notification_data =
     (case get_tx_from_notification_data (network w) (providers w) (transactions w) []
             ''myfatoorah'' notification_data of
        (Inl e, cs) \<Rightarrow> (Inl e, \<lparr>stored = transactions w, called = cs, posted = []\<rparr>)
      | (Inr tx_sudo, cs) \<Rightarrow>
          (case handle_notification_data w tx_sudo notification_data of
             (res, eff) \<Rightarrow> (res, eff\<lparr>called := cs @ called eff\<rparr>)))"

subsection \<open>Redirect endpoints\<close>

definition redirect_endpoint ::
    "string \<Rightarrow> 'l world \<Rightarrow> (string \<times> string) list \<Rightarrow> response \<times> 'l effects" where
  "redirect_endpoint status w kwargs =
     (case map_of kwargs ''paymentId'' of
        None \<Rightarrow> (Redirect ''/payment/status'',
                 \<lparr>stored = transactions w, called = [], posted = []\<rparr>)
      | Some payment_id \<Rightarrow>
          if payment_id = []
          then (Redirect ''/payment/status'',
                \<lparr>stored = transactions w, called = [], posted = []\<rparr>)
          else
            let notification_data = [(''paymentId'', JStr payment_id), (''status'', JStr status)]
            in (Redirect ''/payment/status'', snd (locate_and_handle w notification_data)))"

definition myfatoorah_return ::
    "'l world \<Rightarrow> (string \<times> string) list \<Rightarrow> response \<times> 'l effects" where
  "myfatoorah_return = redirect_endpoint ''success''"

definition myfatoorah_error ::
    "'l world \<Rightarrow> (string \<times> string) list \<Rightarrow> response \<times> 'l effects" where
  "myfatoorah_error = redirect_endpoint ''error''"

subsection \<open>Webhook endpoint\<close>

definition webhook_providers :: "provider list \<Rightarrow> provider list" where
  "webhook_providers ps =
     filter (\<lambda>p. code p = ''myfatoorah'' \<and> (state p = Enabled \<or> state p = Test)
                 \<and> myfatoorah_webhook_enabled p) ps"

text \<open>The loop over the candidate providers: the first whose verifier passes.\<close>

fun verify_any :: "mac \<Rightarrow> provider list \<Rightarrow> string \<Rightarrow> string \<Rightarrow> provider option result" where
  "verify_any mac [] raw signature = Inr None"
| "verify_any mac (p # ps) raw signature =
     bind (myfatoorah_verify_webhook_signature mac p raw signature)
       (\<lambda>ok. if ok then Inr (Some p) else verify_any mac ps raw signature)"

text \<open>\<open>_process_webhook_event\<close>, on the event dictionary.\<close>

definition process_webhook_event ::
    "'l world \<Rightarrow> json \<Rightarrow> (string \<times> json) list \<Rightarrow> provider \<Rightarrow> unit result \<times> 'l effects" where
  "process_webhook_event w event_type event_data provider =
     (let unchanged = \<lparr>stored = transactions w, called = [], posted = []\<rparr>;
          data = dict_get event_data ''Data'' (JDict event_data)
      in case bind (py_get data ''InvoiceId'' JNull) (\<lambda>invoice_id.
              bind (py_get data ''PaymentId'' JNull) (\<lambda>payment_id.
              bind (py_get data ''CustomerReference'' JNull) (\<lambda>customer_reference.
              Inr (invoice_id, payment_id, customer_reference)))) of
           Inl e \<Rightarrow> (Inl e, unchanged)
         | Inr (invoice_id, payment_id, customer_reference) \<Rightarrow>
             if event_type \<in> {JStr ''PAYMENT_STATUS_CHANGED'', JStr ''TransactionStatusChanged''}
             then locate_and_handle w
                    [(''InvoiceId'', invoice_id), (''paymentId'', payment_id),
                     (''CustomerReference'', customer_reference), (''webhook_event'', event_type)]
             else if event_type \<in> {JStr ''REFUND_STATUS_CHANGED'', JStr ''RefundStatusChanged''}
             then (case bind (py_get data ''RefundStatus'' (JStr [])) py_lower of
                     Inl e \<Rightarrow> (Inl e, unchanged)
                   | Inr refund_status \<Rightarrow>
                       if truthy invoice_id
                       then (case search_provider_reference (transactions w) (py_str invoice_id) of
                               Some tx_sudo \<Rightarrow>
                                 (Inr (),
                                  unchanged\<lparr>posted :=
                                    [(tx_id tx_sudo,
                                      ''MyFatoorah Webhook: Refund status changed to ''
                                      @ [CHR 0x27] @ refund_status @ [CHR 0x27]
                                      @ '' for invoice '' @ py_str invoice_id @ ''.'')]\<rparr>)
                             | None \<Rightarrow> (Inr (), unchanged))
                       else (Inr (), unchanged))
             else (Inr (), unchanged))"

definition json_response :: "string \<Rightarrow> string \<Rightarrow> nat \<Rightarrow> response" where
  "json_response st msg c = JsonResponse c [(''status'', JStr st), (''message'', JStr msg)]"

text \<open>The signature header, read under both spellings, and the event type.\<close>

definition webhook_signature :: "request \<Rightarrow> string" where
  "webhook_signature req =
     (let signature = headers_get (headers req) ''MyFatoorah-Signature'' []
      in if signature = [] then headers_get (headers req) ''myfatoorah-signature'' []
         else signature)"

definition event_type_of :: "(string \<times> json) list \<Rightarrow> json" where
  "event_type_of event_data =
     py_or (dict_get event_data ''Event'' JNull)
           (dict_get event_data ''EventType'' (JStr ''Unknown''))"

fun is_object :: "json \<Rightarrow> bool" where
  "is_object (JDict d) = True"
| "is_object _ = False"

text \<open>\<open>myfatoorah_webhook\<close>.  \<open>Inl\<close> is an exception that leaves the handler: the first
  \<open>event_data.get\<close> raises \<open>AttributeError\<close> on a body that is JSON but no object, and the
  verifier is called outside any \<open>try\<close>.\<close>

definition myfatoorah_webhook :: "'l world \<Rightarrow> request \<Rightarrow> response result \<times> 'l effects" where
  "myfatoorah_webhook w req =
     (let unchanged = \<lparr>stored = transactions w, called = [], posted = []\<rparr>
      in case json_loads w (raw_body req) of
           None \<Rightarrow> (Inr (json_response ''error'' ''Invalid JSON body'' 400), unchanged)
         | Some (JDict event_data) \<Rightarrow>
             let signature = webhook_signature req;
                 event_type = event_type_of event_data;
                 candidates = webhook_providers (providers w)
             in if candidates = []
                then (Inr (json_response ''error'' ''No active webhook provider'' 400), unchanged)
                else
                  (case verify_any (hmac_sha256 w) candidates (raw_body req) signature of
                     Inl e \<Rightarrow> (Inl e, unchanged)
                   | Inr None \<Rightarrow>
                       (Inr (json_response ''error'' ''Invalid signature'' 401), unchanged)
                   | Inr (Some matching_provider) \<Rightarrow>
                       (case process_webhook_event w event_type event_data matching_provider of
                          (Inl e, eff) \<Rightarrow>
                            (Inr (json_response ''ok''
                                    ''Event received but processing failed'' 200), eff)
                        | (Inr u, eff) \<Rightarrow>
                            (Inr (json_response ''ok'' ''Event processed successfully'' 200), eff)))
         | Some _ \<Rightarrow> (Inl AttributeError, unchanged))"

section \<open>A guarded lifecycle\<close>

datatype lifecycle_state = Draft | Pending | Done | Canceled | Error

record lifecycle_fields =
  tx_state :: lifecycle_state
  state_message :: "string option"
  state_changes :: nat

fun target :: "action \<Rightarrow> lifecycle_state" where
  "target SetDone = Done"
| "target SetPending = Pending"
| "target (SetCanceled m) = Canceled"
| "target (SetError m) = Error"

fun message :: "action \<Rightarrow> string option" where
  "message SetDone = None"
| "message SetPending = None"
| "message (SetCanceled m) = Some m"
| "message (SetError m) = Some m"

text \<open>Modelled from the spec: the transition primitives of the generic lifecycle, which
  are not among the sources.  The spec has the states draft, pending, done, canceled and
  error, and asks that a primitive called on a transaction already in its target state
  be a no-op; \<open>state_changes\<close> counts the transitions that took effect.\<close>

definition guarded :: "lifecycle_fields primitives" where
  "guarded a l =
     (if tx_state l = target a then l
      else l\<lparr>tx_state := target a, state_message := message a,
             state_changes := state_changes l + 1\<rparr>)"


section \<open>The gateway's reply shapes\<close>

text \<open>
  The shape of a status reply the module consumes: \<open>InvoiceStatus\<close> a string,
  \<open>InvoiceTransactions\<close> a list of objects (or null) whose \<open>TransactionStatus\<close> is a
  string; either may be absent.  The reconciler reads a reply of another shape with
  \<open>.get\<close> and \<open>.lower()\<close> all the same, and raises.
\<close>

fun is_str :: "json \<Rightarrow> bool" where
  "is_str (JStr s) = True"
| "is_str _ = False"

fun is_entry :: "json \<Rightarrow> bool" where
  "is_entry (JDict e) = is_str (dict_get e ''TransactionStatus'' (JStr []))"
| "is_entry _ = False"

fun is_entries :: "json \<Rightarrow> bool" where
  "is_entries (JList xs) = list_all is_entry xs"
| "is_entries JNull = True"
| "is_entries _ = False"

fun status_shaped :: "json \<Rightarrow> bool" where
  "status_shaped (JDict d) =
     (is_str (dict_get d ''InvoiceStatus'' (JStr []))
      \<and> is_entries (dict_get d ''InvoiceTransactions'' (JList [])))"
| "status_shaped _ = False"

text \<open>The invoice-level status, the latest transaction entry and the effective status of
  a status reply: the last entry's \<open>TransactionStatus\<close> when there are entries, the
  invoice-level status otherwise; both lower-cased.\<close>

fun str_of :: "json \<Rightarrow> string" where
  "str_of (JStr s) = s"
| "str_of _ = []"

fun invoice_level :: "json \<Rightarrow> string" where
  "invoice_level (JDict d) = lower (str_of (dict_get d ''InvoiceStatus'' (JStr [])))"
| "invoice_level _ = []"

fun entries :: "json \<Rightarrow> json list" where
  "entries (JDict d) =
     (case dict_get d ''InvoiceTransactions'' (JList []) of JList xs \<Rightarrow> xs | _ \<Rightarrow> [])"
| "entries _ = []"

fun entry_fields :: "json \<Rightarrow> (string \<times> json) list" where
  "entry_fields (JDict e) = e"
| "entry_fields _ = []"

definition latest_entry :: "json \<Rightarrow> (string \<times> json) list option" where
  "latest_entry sd = (if entries sd = [] then None else Some (entry_fields (last (entries sd))))"

definition effective_status :: "json \<Rightarrow> string" where
  "effective_status sd =
     (case latest_entry sd of
        None \<Rightarrow> invoice_level sd
      | Some e \<Rightarrow> lower (str_of (dict_get e ''TransactionStatus'' (JStr []))))"

text \<open>The error text of the latest entry: its \<open>Error\<close>, or else its \<open>ErrorCode\<close>; empty
  when there is no entry.\<close>

definition latest_error :: "json \<Rightarrow> json" where
  "latest_error sd =
     (case latest_entry sd of
        None \<Rightarrow> JStr []
      | Some e \<Rightarrow>
          if e = [] then JStr []
          else py_or (dict_get e ''Error'' (JStr [])) (dict_get e ''ErrorCode'' (JStr [])))"

text \<open>The shape of what the transport returns: a timeout, a connection failure, a body
  that is no JSON, or a JSON object whose \<open>ValidationErrors\<close> (if any) is a list of
  objects with a string \<open>Error\<close>, and whose \<open>Data\<close>, when the reply is a success, is a
  status reply.\<close>

fun is_error_entry :: "json \<Rightarrow> bool" where
  "is_error_entry (JDict e) = is_str (dict_get e ''Error'' (JStr []))"
| "is_error_entry _ = False"

fun is_errors :: "json \<Rightarrow> bool" where
  "is_errors (JList es) = list_all is_error_entry es"
| "is_errors JNull = True"
| "is_errors _ = False"

fun well_formed_reply :: "http_outcome \<Rightarrow> bool" where
  "well_formed_reply (Response c (Some (JDict b))) =
     (is_errors (dict_get b ''ValidationErrors'' JNull)
      \<and> (if c = 200 \<and> truthy (dict_get b ''IsSuccess'' JNull)
         then status_shaped (dict_get b ''Data'' (JDict [])) else True))"
| "well_formed_reply (Response c (Some _)) = False"
| "well_formed_reply _ = True"

section \<open>Example data\<close>

text \<open>A provider, a transaction and gateways with fixed replies, for the instances the
  theorems below are used at.\<close>

definition example_provider :: provider where
  "example_provider =
     \<lparr>name = ''MyFatoorah'', code = ''myfatoorah'', state = Enabled,
      myfatoorah_secret_key = Some ''live-key'', myfatoorah_test_secret_key = None,
      myfatoorah_country_code = Some ''KW'', myfatoorah_webhook_secret = Some ''whsec'',
      myfatoorah_webhook_enabled = True\<rparr>"

definition example_tx :: "lifecycle_fields transaction" where
  "example_tx =
     \<lparr>tx_id = 1, reference = ''S00042'', provider_reference = None,
      provider_code = ''myfatoorah'', provider_id = example_provider,
      lifecycle = \<lparr>tx_state = Draft, state_message = None, state_changes = 0\<rparr>\<rparr>"

definition success_reply :: "json \<Rightarrow> json" where
  "success_reply data = JDict [(''IsSuccess'', JBool True), (''Message'', JStr []), (''Data'', data)]"

definition failed_data :: json where
  "failed_data =
     JDict [(''InvoiceId'', JInt 77), (''CustomerReference'', JStr ''S00042''),
            (''InvoiceTransactions'',
               JList [JDict [(''TransactionStatus'', JStr ''InProgress'')],
                      JDict [(''TransactionStatus'', JStr ''Failed''),
                             (''Error'', JStr ''Insufficient funds'')]])]"

definition failed_gateway :: transport where
  "failed_gateway req = Response 200 (Some (success_reply failed_data))"

definition timeout_gateway :: transport where
  "timeout_gateway req = Timeout"

definition paid_data :: json where
  "paid_data =
     JDict [(''InvoiceId'', JInt 77), (''InvoiceStatus'', JStr ''Paid''),
            (''CustomerReference'', JStr ''S00042''), (''InvoiceTransactions'', JList [])]"

definition paid_gateway :: transport where
  "paid_gateway req = Response 200 (Some (success_reply paid_data))"

definition invoice_gateway :: "json \<Rightarrow> transport" where
  "invoice_gateway data req = Response 200 (Some (success_reply data))"

definition pending_failed_data :: json where
  "pending_failed_data =
     JDict [(''InvoiceId'', JInt 77), (''InvoiceStatus'', JStr ''Pending''),
            (''CustomerReference'', JStr ''S00042''),
            (''InvoiceTransactions'',
               JList [JDict [(''TransactionStatus'', JStr ''Failed''),
                             (''Error'', JStr ''Insufficient funds'')]])]"

text \<open>A gateway that answers 200 with the JSON body \<^verbatim>\<open>[1, 2]\<close>.\<close>

definition list_gateway :: transport where
  "list_gateway req = Response 200 (Some (JList [JInt 1, JInt 2]))"

text \<open>The \<open>GetPaymentStatus\<close> request for the payment id \<open>0808\<close> as the example provider
  sends it, a second provider with no API key, and a transaction of another gateway
  with the example transaction's reference.\<close>

definition example_status_request :: http_request where
  "example_status_request =
     \<lparr>req_method = ''POST'', req_url = ''https://api.myfatoorah.com/v2/GetPaymentStatus'',
      req_headers = [(''Authorization'', ''Bearer live-key''),
                     (''Content-Type'', ''application/json''),
                     (''Accept'', ''application/json'')],
      req_json = Some (JDict [(''Key'', JStr ''0808''), (''KeyType'', JStr ''PaymentId'')])\<rparr>"

definition keyless_provider :: provider where
  "keyless_provider =
     example_provider\<lparr>name := ''MyFatoorah (EG)'', myfatoorah_secret_key := None,
                       myfatoorah_country_code := Some ''EG''\<rparr>"

definition foreign_tx :: "lifecycle_fields transaction" where
  "foreign_tx = example_tx\<lparr>provider_code := ''stripe''\<rparr>"

definition invoiced_tx :: "lifecycle_fields transaction" where
  "invoiced_tx =
     example_tx\<lparr>tx_id := 2, reference := ''S00043'', provider_reference := Some ''77''\<rparr>"

text \<open>A webhook delivery: the body
  \<^verbatim>\<open>{"Event":"PAYMENT_STATUS_CHANGED","Data":{"CustomerReference":"S00099"}}\<close>, a
  stand-in for the MAC whose digest is two fixed bytes, and the parser's result on that
  body.\<close>

definition example_body :: string where
  "example_body =
     ''{'' @ [CHR 0x22] @ ''Event'' @ [CHR 0x22] @ '':'' @ [CHR 0x22]
       @ ''PAYMENT_STATUS_CHANGED'' @ [CHR 0x22] @ '','' @ [CHR 0x22] @ ''Data'' @ [CHR 0x22]
       @ '':{'' @ [CHR 0x22] @ ''CustomerReference'' @ [CHR 0x22] @ '':'' @ [CHR 0x22]
       @ ''S00099'' @ [CHR 0x22] @ ''}}''"

definition example_event :: "(string \<times> json) list" where
  "example_event =
     [(''Event'', JStr ''PAYMENT_STATUS_CHANGED''),
      (''Data'', JDict [(''CustomerReference'', JStr ''S00099'')])]"

definition example_loads :: "string \<Rightarrow> json option" where
  "example_loads s = (if s = example_body then Some (JDict example_event) else None)"

definition example_mac :: mac where
  "example_mac key msg = [CHR 0xAB, CHR 0x01]"

definition example_world :: "provider list \<Rightarrow> lifecycle_fields world" where
  "example_world ps =
     \<lparr>primitives = guarded, network = timeout_gateway, hmac_sha256 = example_mac,
      json_loads = example_loads, providers = ps, transactions = [example_tx]\<rparr>"

definition example_request :: "string \<Rightarrow> request" where
  "example_request signature =
     \<lparr>raw_body = example_body, headers = [(''Myfatoorah-Signature'', signature)]\<rparr>"

section \<open>Lemmas\<close>

subsection \<open>Runs\<close>

lemma set_state_simps [simp]:
  "provider_reference (tx (set_state prim a r)) = provider_reference (tx r)"
  "provider_id (tx (set_state prim a r)) = provider_id (tx r)"
  "provider_code (tx (set_state prim a r)) = provider_code (tx r)"
  "reference (tx (set_state prim a r)) = reference (tx r)"
  "tx_id (tx (set_state prim a r)) = tx_id (tx r)"
  "lifecycle (tx (set_state prim a r)) = prim a (lifecycle (tx r))"
  "calls (set_state prim a r) = calls r"
  "applied (set_state prim a r) = applied r @ [a]"
  "raised (set_state prim a r) = raised r"
  by (simp_all add: set_state_def)

lemma raise_simps [simp]:
  "tx (raise e r) = tx r"
  "calls (raise e r) = calls r"
  "applied (raise e r) = applied r"
  "raised (raise e r) = Some e"
  by (simp_all add: raise_def)

lemma backfill_simps [simp]:
  "calls (backfill i r) = calls r"
  "applied (backfill i r) = applied r"
  "raised (backfill i r) = raised r"
  "lifecycle (tx (backfill i r)) = lifecycle (tx r)"
  "provider_id (tx (backfill i r)) = provider_id (tx r)"
  "provider_code (tx (backfill i r)) = provider_code (tx r)"
  "reference (tx (backfill i r)) = reference (tx r)"
  "tx_id (tx (backfill i r)) = tx_id (tx r)"
  by (simp_all add: backfill_def)

subsection \<open>Well-shaped replies\<close>

lemma is_str_lower: "is_str v \<Longrightarrow> py_lower v = Inr (lower (str_of v))"
  by (cases v) simp_all

lemma latest_status_shaped:
  assumes "is_entries ts"
  shows "latest_status ts ivs =
     Inr (case ts of
            JList xs \<Rightarrow>
              if xs = [] then (None, ivs)
              else (Some (entry_fields (last xs)),
                    lower (str_of (dict_get (entry_fields (last xs))
                                     ''TransactionStatus'' (JStr []))))
          | _ \<Rightarrow> (None, ivs))"
proof (cases ts)
  case (JList xs)
  show ?thesis
  proof (cases "xs = []")
    case True
    then show ?thesis using JList by (simp add: latest_status_def)
  next
    case False
    then have "is_entry (last xs)"
      using assms JList by (simp add: list_all_iff)
    then obtain e where "last xs = JDict e"
        "is_str (dict_get e ''TransactionStatus'' (JStr []))"
      by (cases "last xs") simp_all
    then show ?thesis
      using JList False by (simp add: latest_status_def bind_def is_str_lower)
  qed
qed (use assms in \<open>simp_all add: latest_status_def\<close>)

lemma process_status_shaped:
  assumes "status_shaped sd"
  shows "\<exists>d. sd = JDict d \<and> process_status prim sd r =
     set_state prim (status_action (invoice_level sd) (effective_status sd) (latest_entry sd))
        (backfill (dict_get d ''InvoiceId'' JNull) r)"
proof -
  from assms obtain d where d: "sd = JDict d"
    "is_str (dict_get d ''InvoiceStatus'' (JStr []))"
    "is_entries (dict_get d ''InvoiceTransactions'' (JList []))"
    by (cases sd) simp_all
  show ?thesis
    using d latest_status_shaped [OF d(3)]
    by (cases "dict_get d ''InvoiceTransactions'' (JList [])")
       (simp_all add: process_status_def is_str_lower Let_def
          effective_status_def latest_entry_def)
qed

lemma collect_errors_shaped:
  "list_all is_error_entry es \<Longrightarrow> \<exists>xs. collect_errors es = Inr xs"
proof (induction es)
  case Nil
  then show ?case by simp
next
  case (Cons e es)
  then obtain xs where xs: "collect_errors es = Inr xs" by auto
  from Cons.prems obtain d where d: "e = JDict d" "is_str (dict_get d ''Error'' (JStr []))"
    by (cases e) simp_all
  then obtain s where "dict_get d ''Error'' (JStr []) = JStr s"
    by (cases "dict_get d ''Error'' (JStr [])") simp_all
  then show ?case using xs d by (simp add: bind_def)
qed

lemma validation_details_shaped:
  "is_errors v \<Longrightarrow> truthy v \<Longrightarrow> \<exists>s. validation_details v = Inr s"
proof (cases v)
  case (JList es)
  assume "is_errors v"
  then obtain xs where "collect_errors es = Inr xs"
    using JList collect_errors_shaped by auto
  then show ?thesis using JList by (simp add: bind_def)
qed simp_all

lemma gateway_rejected_shaped:
  "is_errors (dict_get b ''ValidationErrors'' JNull) \<Longrightarrow>
     gateway_rejected (JDict b) = Inl ValidationError"
  using validation_details_shaped [of "dict_get b ''ValidationErrors'' JNull"]
  by (auto simp: gateway_rejected_def bind_def)

lemma build_request_cases:
  obtains (no_key) "myfatoorah_get_api_key p = Inl ValidationError"
      "build_request p ep payload m = Inl ValidationError"
  | (built) api_key request where "myfatoorah_get_api_key p = Inr api_key"
      "build_request p ep payload m = Inr request"
proof (cases "myfatoorah_get_api_key p")
  case (Inl e)
  then have "e = ValidationError"
    by (auto simp: myfatoorah_get_api_key_def Let_def split: if_splits)
  then show ?thesis using Inl no_key by (simp add: build_request_def bind_def)
next
  case (Inr api_key)
  then show ?thesis using built by (simp add: build_request_def bind_def Let_def)
qed

lemma requests_sent_length: "length (requests_sent p ep payload m) \<le> 1"
  by (cases rule: build_request_cases [where p = p and ep = ep and payload = payload and m = m])
     (simp_all add: requests_sent_def)

lemma status_requests_length: "length (status_requests p key kt) \<le> 1"
  unfolding status_requests_def by (rule requests_sent_length)

lemma read_response_shaped:
  assumes "well_formed_reply outcome"
  shows "read_response outcome = Inl ValidationError \<or>
         (\<exists>sd. read_response outcome = Inr sd \<and> status_shaped sd)"
proof (cases outcome)
  case (Response c body)
  show ?thesis
  proof (cases body)
    case None
    then show ?thesis using Response by (simp add: read_response_def)
  next
    case (Some rd)
    then obtain b where b: "rd = JDict b" using assms Response by (cases rd) simp_all
    then have errs: "is_errors (dict_get b ''ValidationErrors'' JNull)"
      using assms Response Some by simp
    show ?thesis
      using Response Some b assms gateway_rejected_shaped [OF errs]
      by (auto simp: read_response_def bind_def)
  qed
qed (simp_all add: read_response_def)

lemma make_request_shaped:
  assumes "\<forall>req. well_formed_reply (http req)"
  shows "myfatoorah_make_request http p ep payload m = Inl ValidationError \<or>
         (\<exists>sd. myfatoorah_make_request http p ep payload m = Inr sd \<and> status_shaped sd)"
proof (cases rule: build_request_cases [where p = p and ep = ep and payload = payload and m = m])
  case no_key
  then show ?thesis by (simp add: myfatoorah_make_request_def bind_def)
next
  case (built api_key request)
  have "well_formed_reply (http request)" using assms by simp
  from read_response_shaped [OF this] show ?thesis
    using built by (simp add: myfatoorah_make_request_def bind_def)
qed

text \<open>The result of a call is read off the one request it sent.\<close>

lemma make_request_reads_sent:
  "myfatoorah_make_request http p ep payload m =
     (case requests_sent p ep payload m of
        [] \<Rightarrow> Inl ValidationError
      | request # rest \<Rightarrow> read_response (http request))"
  by (cases rule: build_request_cases [where p = p and ep = ep and payload = payload and m = m])
     (simp_all add: myfatoorah_make_request_def requests_sent_def bind_def)

lemma get_payment_status_shaped:
  assumes "\<forall>req. well_formed_reply (http req)"
  shows "get_payment_status http p key kt = Inl ValidationError \<or>
         (\<exists>sd. get_payment_status http p key kt = Inr sd \<and> status_shaped sd)"
  unfolding get_payment_status_def using make_request_shaped [OF assms] .

subsection \<open>The reconciler's paths\<close>

lemma run_with_reply:
  assumes "provider_code t = ''myfatoorah''"
    and "status_key nd t = Some (key, kt)"
    and "get_payment_status http (provider_id t) (JStr (py_str key)) kt = Inr sd"
  shows "process_notification_data prim http nd t =
     process_status prim sd
       \<lparr>tx = t, calls = status_requests (provider_id t) (JStr (py_str key)) kt,
        applied = [], raised = None\<rparr>"
  using assms by (simp add: process_notification_data_def verify_status_def Let_def)

lemma status_key_agree:
  "map_of nd1 ''paymentId'' = map_of nd2 ''paymentId'' \<Longrightarrow>
   map_of nd1 ''InvoiceId'' = map_of nd2 ''InvoiceId'' \<Longrightarrow>
   status_key nd1 t = status_key nd2 t"
  by (simp add: status_key_def dict_get_def)

lemma run_without_key:
  assumes "provider_code t = ''myfatoorah''" and "status_key nd t = None"
  shows "process_notification_data prim http nd t =
     \<lparr>tx = t\<lparr>lifecycle := prim (SetError ''MyFatoorah: Missing payment identification in the notification.'') (lifecycle t)\<rparr>,
      calls = [],
      applied = [SetError ''MyFatoorah: Missing payment identification in the notification.''],
      raised = None\<rparr>"
  using assms by (simp add: process_notification_data_def set_state_def)

lemma run_with_gateway_error:
  assumes "provider_code t = ''myfatoorah''"
    and "status_key nd t = Some (key, kt)"
    and "get_payment_status http (provider_id t) (JStr (py_str key)) kt = Inl ValidationError"
  shows "process_notification_data prim http nd t =
     \<lparr>tx = t\<lparr>lifecycle := prim (SetError ''MyFatoorah: Failed to verify payment status.'') (lifecycle t)\<rparr>,
      calls = status_requests (provider_id t) (JStr (py_str key)) kt,
      applied = [SetError ''MyFatoorah: Failed to verify payment status.''],
      raised = None\<rparr>"
  using assms by (simp add: process_notification_data_def verify_status_def set_state_def)

lemma latest_status_no_validation_error:
  "latest_status ts ivs \<noteq> Inl ValidationError"
proof (cases "truthy ts")
  case False
  then show ?thesis by (simp add: latest_status_def)
next
  case True
  show ?thesis
  proof (cases "py_last ts")
    case (Inl e)
    then have "e \<noteq> ValidationError"
      by (cases ts) (auto split: if_splits)
    then show ?thesis using True Inl by (simp add: latest_status_def bind_def)
  next
    case (Inr l)
    show ?thesis
    proof (cases l)
      case (JDict d)
      then show ?thesis using True Inr
        by (cases "dict_get d ''TransactionStatus'' (JStr [])")
           (simp_all add: latest_status_def bind_def)
    qed (use True Inr in \<open>simp_all add: latest_status_def bind_def\<close>)
  qed
qed

lemma process_status_bounds:
  "raised (process_status prim sd r) = raised r \<or>
     (\<exists>e. raised (process_status prim sd r) = Some e \<and> e \<noteq> ValidationError)"
  "calls (process_status prim sd r) = calls r"
  "length (applied (process_status prim sd r)) \<le> Suc (length (applied r))"
proof -
  show "calls (process_status prim sd r) = calls r"
    by (auto simp: process_status_def Let_def split: json.splits sum.splits prod.splits)
  show "length (applied (process_status prim sd r)) \<le> Suc (length (applied r))"
    by (auto simp: process_status_def Let_def split: json.splits sum.splits prod.splits)
  show "raised (process_status prim sd r) = raised r \<or>
     (\<exists>e. raised (process_status prim sd r) = Some e \<and> e \<noteq> ValidationError)"
  proof (cases sd)
    case (JDict d)
    show ?thesis
    proof (cases "py_lower (dict_get d ''InvoiceStatus'' (JStr []))")
      case (Inl e)
      then have "e = AttributeError"
        by (cases "dict_get d ''InvoiceStatus'' (JStr [])") simp_all
      then show ?thesis using JDict Inl by (simp add: process_status_def)
    next
      case (Inr ivs)
      then show ?thesis
        using JDict latest_status_no_validation_error
          [of "dict_get d ''InvoiceTransactions'' (JList [])" ivs]
        by (auto simp: process_status_def Let_def split: sum.splits prod.splits)
    qed
  qed (simp_all add: process_status_def)
qed

lemma run_bounds:
  "raised (process_notification_data prim http nd t) \<noteq> Some ValidationError"
  "length (calls (process_notification_data prim http nd t)) \<le> 1"
  "length (applied (process_notification_data prim http nd t)) \<le> 1"
proof -
  let ?r = "process_notification_data prim http nd t"
  have "raised ?r \<noteq> Some ValidationError \<and> length (calls ?r) \<le> 1 \<and> length (applied ?r) \<le> 1"
  proof (cases "provider_code t = ''myfatoorah''")
    case False
    then show ?thesis by (simp add: process_notification_data_def)
  next
    case code: True
    show ?thesis
    proof (cases "status_key nd t")
      case None
      then show ?thesis using run_without_key [OF code None, of prim http] by simp
    next
      case (Some kk)
      obtain key kt where kk: "kk = (key, kt)" by (cases kk)
      show ?thesis
      proof (cases "get_payment_status http (provider_id t) (JStr (py_str key)) kt")
        case (Inl e)
        then show ?thesis using code Some kk
          status_requests_length [of "provider_id t" "JStr (py_str key)" kt]
          by (cases e) (simp_all add: process_notification_data_def verify_status_def)
      next
        case (Inr sd)
        let ?r0 = "\<lparr>tx = t, calls = status_requests (provider_id t) (JStr (py_str key)) kt,
                    applied = [], raised = None\<rparr>"
        show ?thesis
          using run_with_reply [OF code _ Inr, of nd prim] Some kk
            process_status_bounds [of prim sd ?r0]
            status_requests_length [of "provider_id t" "JStr (py_str key)" kt]
          by auto
      qed
    qed
  qed
  then show "raised ?r \<noteq> Some ValidationError" "length (calls ?r) \<le> 1" "length (applied ?r) \<le> 1"
    by simp_all
qed

lemma run_well_formed:
  assumes "provider_code t = ''myfatoorah''" and "\<forall>req. well_formed_reply (http req)"
  shows "raised (process_notification_data prim http nd t) = None \<and>
         length (applied (process_notification_data prim http nd t)) = 1"
proof (cases "status_key nd t")
  case None
  then show ?thesis using run_without_key [OF assms(1) None, of prim http] by simp
next
  case (Some kk)
  obtain key kt where kk: "kk = (key, kt)" by (cases kk)
  from get_payment_status_shaped [OF assms(2), of "provider_id t" "JStr (py_str key)" kt]
  show ?thesis
  proof
    assume "get_payment_status http (provider_id t) (JStr (py_str key)) kt = Inl ValidationError"
    then show ?thesis
      using run_with_gateway_error [OF assms(1) _ , of nd key kt http prim] Some kk by simp
  next
    assume "\<exists>sd. get_payment_status http (provider_id t) (JStr (py_str key)) kt = Inr sd \<and> status_shaped sd"
    then obtain sd where sd: "get_payment_status http (provider_id t) (JStr (py_str key)) kt = Inr sd"
      "status_shaped sd" by blast
    let ?r0 = "\<lparr>tx = t, calls = status_requests (provider_id t) (JStr (py_str key)) kt,
                applied = [], raised = None\<rparr>"
    from process_status_shaped [OF sd(2), of prim ?r0]
    show ?thesis
      using run_with_reply [OF assms(1) _ sd(1), of nd prim] Some kk by auto
  qed
qed

lemma backfill_provider_reference:
  "provider_reference (tx (backfill i r)) =
     (if truthy i \<and> \<not> field_truthy (provider_reference (tx r)) then Some (py_str i)
      else provider_reference (tx r))"
  by (simp add: backfill_def)

lemma process_status_cases:
  obtains (not_read) e where "\<And>r. process_status prim sd r = raise e r"
  | (not_mapped) e d where "sd = JDict d"
      "\<And>r. process_status prim sd r = raise e (backfill (dict_get d ''InvoiceId'' JNull) r)"
  | (mapped) a d where "sd = JDict d"
      "\<And>r. process_status prim sd r
         = set_state prim a (backfill (dict_get d ''InvoiceId'' JNull) r)"
proof (cases sd)
  case (JDict d)
  show ?thesis
  proof (cases "py_lower (dict_get d ''InvoiceStatus'' (JStr []))")
    case (Inl e)
    then show ?thesis using JDict not_read by (simp add: process_status_def)
  next
    case (Inr ivs)
    show ?thesis
    proof (cases "latest_status (dict_get d ''InvoiceTransactions'' (JList [])) ivs")
      case (Inl e)
      then show ?thesis using JDict Inr not_mapped by (simp add: process_status_def)
    next
      case inr: (Inr l)
      then show ?thesis using JDict Inr mapped
        by (cases l) (simp add: process_status_def)
    qed
  qed
qed (use not_read in \<open>simp_all add: process_status_def\<close>)

lemma process_status_frame:
  "reference (tx (process_status prim sd r)) = reference (tx r)"
  "tx_id (tx (process_status prim sd r)) = tx_id (tx r)"
  "provider_code (tx (process_status prim sd r)) = provider_code (tx r)"
  "provider_id (tx (process_status prim sd r)) = provider_id (tx r)"
  by (cases rule: process_status_cases [where prim = prim and sd = sd]; simp)+

lemma process_status_provider_reference:
  "provider_reference (tx (process_status prim sd r)) = provider_reference (tx r) \<or>
   (\<not> field_truthy (provider_reference (tx r)) \<and>
    (\<exists>d. sd = JDict d \<and> truthy (dict_get d ''InvoiceId'' JNull) \<and>
       provider_reference (tx (process_status prim sd r))
         = Some (py_str (dict_get d ''InvoiceId'' JNull))))"
  by (cases rule: process_status_cases [where prim = prim and sd = sd])
     (simp_all add: backfill_provider_reference)

lemma run_cases:
  obtains (foreign) "provider_code t \<noteq> ''myfatoorah''"
      "process_notification_data prim http nd t = \<lparr>tx = t, calls = [], applied = [], raised = None\<rparr>"
  | (no_key) "provider_code t = ''myfatoorah''" "status_key nd t = None"
  | (gateway_error) key kt where "provider_code t = ''myfatoorah''"
      "status_key nd t = Some (key, kt)"
      "get_payment_status http (provider_id t) (JStr (py_str key)) kt = Inl ValidationError"
  | (escaped) key kt e where "provider_code t = ''myfatoorah''"
      "status_key nd t = Some (key, kt)"
      "get_payment_status http (provider_id t) (JStr (py_str key)) kt = Inl e"
      "e \<noteq> ValidationError"
      "process_notification_data prim http nd t =
         \<lparr>tx = t, calls = status_requests (provider_id t) (JStr (py_str key)) kt,
          applied = [], raised = Some e\<rparr>"
  | (reply) key kt sd where "provider_code t = ''myfatoorah''"
      "status_key nd t = Some (key, kt)"
      "get_payment_status http (provider_id t) (JStr (py_str key)) kt = Inr sd"
proof (cases "provider_code t = ''myfatoorah''")
  case False
  then show ?thesis using foreign by (simp add: process_notification_data_def)
next
  case code: True
  show ?thesis
  proof (cases "status_key nd t")
    case None
    then show ?thesis using code no_key by simp
  next
    case (Some kk)
    obtain key kt where kk: "kk = (key, kt)" by (cases kk)
    show ?thesis
    proof (cases "get_payment_status http (provider_id t) (JStr (py_str key)) kt")
      case (Inl e)
      show ?thesis
      proof (cases "e = ValidationError")
        case True
        then show ?thesis using code Some kk Inl gateway_error by simp
      next
        case False
        then have "process_notification_data prim http nd t =
           \<lparr>tx = t, calls = status_requests (provider_id t) (JStr (py_str key)) kt,
            applied = [], raised = Some e\<rparr>"
          using code Some kk Inl
          by (cases e) (simp_all add: process_notification_data_def verify_status_def raise_def)
        then show ?thesis using code Some kk Inl False escaped by simp
      qed
    next
      case (Inr sd)
      then show ?thesis using code Some kk reply by simp
    qed
  qed
qed

lemma run_frame:
  "reference (tx (process_notification_data prim http nd t)) = reference t
   \<and> tx_id (tx (process_notification_data prim http nd t)) = tx_id t
   \<and> provider_code (tx (process_notification_data prim http nd t)) = provider_code t
   \<and> provider_id (tx (process_notification_data prim http nd t)) = provider_id t"
proof (cases rule: run_cases [where t = t and prim = prim and http = http and nd = nd])
  case no_key
  then show ?thesis using run_without_key [of t nd prim http] by simp
next
  case (gateway_error key kt)
  then show ?thesis using run_with_gateway_error [of t nd key kt http prim] by simp
next
  case (reply key kt sd)
  then show ?thesis
    using run_with_reply [of t nd key kt http sd prim] by (simp add: process_status_frame)
qed simp_all

lemma run_provider_reference:
  "provider_reference (tx (process_notification_data prim http nd t)) = provider_reference t \<or>
   (\<not> field_truthy (provider_reference t) \<and>
    (\<exists>key kt d. status_key nd t = Some (key, kt) \<and>
       get_payment_status http (provider_id t) (JStr (py_str key)) kt = Inr (JDict d) \<and>
       truthy (dict_get d ''InvoiceId'' JNull) \<and>
       provider_reference (tx (process_notification_data prim http nd t))
         = Some (py_str (dict_get d ''InvoiceId'' JNull))))"
proof (cases rule: run_cases [where t = t and prim = prim and http = http and nd = nd])
  case no_key
  then show ?thesis using run_without_key [of t nd prim http] by simp
next
  case (gateway_error key kt)
  then show ?thesis using run_with_gateway_error [of t nd key kt http prim] by simp
next
  case (reply key kt sd)
  let ?r0 = "\<lparr>tx = t, calls = status_requests (provider_id t) (JStr (py_str key)) kt,
              applied = [], raised = None\<rparr>"
  show ?thesis
    using run_with_reply [OF reply, of prim] reply process_status_provider_reference [of prim sd ?r0]
    by auto
qed simp_all

lemma map_of_other_entry:
  "k \<noteq> s \<Longrightarrow> map_of ((a, x) # (s, v) # rest) k = map_of ((a, x) # (s, v') # rest) k"
  by simp

lemma run_shaped:
  assumes "provider_code t = ''myfatoorah''"
    and "status_key nd t = Some (key, kt)"
    and "get_payment_status http (provider_id t) (JStr (py_str key)) kt = Inr (JDict d)"
    and "status_shaped (JDict d)"
  shows "process_notification_data prim http nd t =
     set_state prim
       (status_action (invoice_level (JDict d)) (effective_status (JDict d))
          (latest_entry (JDict d)))
       (backfill (dict_get d ''InvoiceId'' JNull)
          \<lparr>tx = t, calls = status_requests (provider_id t) (JStr (py_str key)) kt,
           applied = [], raised = None\<rparr>)"
  using process_status_shaped [OF assms(4)] run_with_reply [OF assms(1-3), of prim]
  by auto

lemma status_key_explicit:
  "status_key nd t =
     (if truthy (dict_get nd ''paymentId'' JNull)
      then Some (dict_get nd ''paymentId'' JNull, ''PaymentId'')
      else if truthy (dict_get nd ''InvoiceId'' JNull)
      then Some (dict_get nd ''InvoiceId'' JNull, ''InvoiceId'')
      else if provider_reference t \<noteq> None \<and> provider_reference t \<noteq> Some []
      then Some (JStr (the (provider_reference t)), ''InvoiceId'')
      else None)"
  by (cases "provider_reference t")
     (simp_all add: status_key_def py_or_def field_value_def Let_def)

lemma run_calls:
  assumes "provider_code t = ''myfatoorah''" and "status_key nd t = Some (key, kt)"
  shows "calls (process_notification_data prim http nd t)
         = status_requests (provider_id t) (JStr (py_str key)) kt"
proof (cases "get_payment_status http (provider_id t) (JStr (py_str key)) kt")
  case (Inl e)
  then show ?thesis using assms
    by (cases e) (simp_all add: process_notification_data_def verify_status_def)
next
  case (Inr sd)
  then show ?thesis
    using run_with_reply [OF assms Inr, of prim] by (simp add: process_status_bounds)
qed

subsection \<open>Running the reconciler again\<close>

lemma digits_not_empty: "digits n \<noteq> []"
  by (subst digits.simps) simp

lemma py_str_truthy: "truthy v \<Longrightarrow> py_str v \<noteq> []"
  by (cases v) (simp_all add: str_int_def digits_not_empty)

lemma status_key_same_reference:
  "provider_reference t' = provider_reference t \<Longrightarrow> status_key nd t' = status_key nd t"
  by (simp add: status_key_def)

lemma status_key_unset_reference:
  "status_key nd t = Some k \<Longrightarrow> \<not> field_truthy (provider_reference t) \<Longrightarrow>
     status_key nd t' = Some k"
  by (auto simp: status_key_def py_or_def field_value_def field_truthy_def Let_def
      split: if_splits option.splits)

lemma status_key_backfill:
  assumes "status_key nd t = Some k"
  shows "status_key nd (tx (backfill i \<lparr>tx = t, calls = cs, applied = as, raised = x\<rparr>)) = Some k"
proof (cases "truthy i \<and> \<not> field_truthy (provider_reference t)")
  case True
  then show ?thesis using status_key_unset_reference [OF assms] by simp
next
  case False
  then show ?thesis using assms by (auto simp: backfill_def)
qed

lemma backfill_twice:
  "backfill i \<lparr>tx = tx (backfill i \<lparr>tx = t, calls = cs, applied = as, raised = x\<rparr>),
              calls = cs', applied = as', raised = x'\<rparr>
   = \<lparr>tx = tx (backfill i \<lparr>tx = t, calls = cs, applied = as, raised = x\<rparr>),
       calls = cs', applied = as', raised = x'\<rparr>"
  by (simp add: backfill_def field_truthy_def py_str_truthy)

lemma process_status_twice:
  assumes "\<forall>a l. prim a (prim a l) = prim a l"
  shows "process_status prim sd
           \<lparr>tx = tx (process_status prim sd \<lparr>tx = t, calls = cs, applied = [], raised = None\<rparr>),
            calls = cs, applied = [], raised = None\<rparr>
         = process_status prim sd \<lparr>tx = t, calls = cs, applied = [], raised = None\<rparr>"
proof (cases rule: process_status_cases [where prim = prim and sd = sd])
  case (not_read e)
  then show ?thesis by (simp add: raise_def)
next
  case (not_mapped e d)
  then show ?thesis
    using backfill_twice [of "dict_get d ''InvoiceId'' JNull" t cs "[]" None cs "[]" None]
    by (simp add: raise_def)
next
  case (mapped a d)
  let ?i = "dict_get d ''InvoiceId'' JNull"
  let ?b = "backfill ?i \<lparr>tx = t, calls = cs, applied = [], raised = None\<rparr>"
  have b: "?b = \<lparr>tx = tx ?b, calls = cs, applied = [], raised = None\<rparr>"
    by (simp add: backfill_def)
  have "backfill ?i \<lparr>tx = tx (set_state prim a ?b), calls = cs, applied = [], raised = None\<rparr>
        = \<lparr>tx = tx (set_state prim a ?b), calls = cs, applied = [], raised = None\<rparr>"
    by (simp add: backfill_def set_state_def field_truthy_def py_str_truthy)
  then show ?thesis
    using mapped assms b by (simp add: set_state_def)
qed

subsection \<open>The example runs\<close>

lemma guarded_idem: "guarded a (guarded a l) = guarded a l"
  by (simp add: guarded_def)

lemma paid_run:
  "process_notification_data guarded paid_gateway [(''paymentId'', JStr ''0808'')] example_tx
   = \<lparr>tx = example_tx\<lparr>provider_reference := Some ''77'',
            lifecycle := \<lparr>tx_state = Done, state_message = None, state_changes = 1\<rparr>\<rparr>,
      calls = [example_status_request],
      applied = [SetDone], raised = None\<rparr>"
proof -
  have h1: "provider_code example_tx = ''myfatoorah''" by code_simp
  have h2: "status_key [(''paymentId'', JStr ''0808'')] example_tx
              = Some (JStr ''0808'', ''PaymentId'')" by code_simp
  have h3: "get_payment_status paid_gateway (provider_id example_tx)
              (JStr (py_str (JStr ''0808''))) ''PaymentId''
            = Inr (JDict (entry_fields paid_data))" by code_simp
  have h4: "status_shaped (JDict (entry_fields paid_data))" by code_simp
  have a: "status_action (invoice_level (JDict (entry_fields paid_data)))
             (effective_status (JDict (entry_fields paid_data)))
             (latest_entry (JDict (entry_fields paid_data))) = SetDone" by code_simp
  have i: "py_str (dict_get (entry_fields paid_data) ''InvoiceId'' JNull) = ''77''"
    "truthy (dict_get (entry_fields paid_data) ''InvoiceId'' JNull)" by code_simp+
  have p: "provider_id example_tx = example_provider"
    "provider_reference example_tx = None"
    "guarded SetDone (lifecycle example_tx)
       = \<lparr>tx_state = Done, state_message = None, state_changes = 1\<rparr>" by code_simp+
  have c: "status_requests example_provider (JStr ''0808'') ''PaymentId''
             = [example_status_request]" by code_simp
  show ?thesis
    unfolding run_shaped [OF h1 h2 h3 h4] a
    by (simp add: set_state_def backfill_def i p c field_truthy_def)
qed

subsection \<open>The locator\<close>

lemma upper_post: "upper ''POST'' = ''POST''"
  by code_simp

lemma status_requests_explicit:
  "status_requests p key kt =
     (case myfatoorah_get_api_key p of
        Inl e \<Rightarrow> []
      | Inr api_key \<Rightarrow>
          [\<lparr>req_method = ''POST'',
            req_url = myfatoorah_get_api_url p @ ''/v2/GetPaymentStatus'',
            req_headers = [(''Authorization'', ''Bearer '' @ api_key),
                           (''Content-Type'', ''application/json''),
                           (''Accept'', ''application/json'')],
            req_json = Some (JDict [(''Key'', key), (''KeyType'', JStr kt)])\<rparr>])"
  by (cases "myfatoorah_get_api_key p")
     (simp_all add: status_requests_def requests_sent_def build_request_def bind_def Let_def
        upper_post)

lemma reply_needs_api_key:
  "get_payment_status http p key kt = Inr sd \<Longrightarrow> \<exists>api_key. myfatoorah_get_api_key p = Inr api_key"
  by (cases "myfatoorah_get_api_key p")
     (simp_all add: get_payment_status_def myfatoorah_make_request_def build_request_def
        bind_def Let_def)

lemma local_tiers_explicit:
  "local_tiers txs r i =
     (case (if truthy r
            then find (\<lambda>t. JStr (reference t) = r \<and> provider_code t = ''myfatoorah'') txs
            else None) of
        Some t \<Rightarrow> Some t
      | None \<Rightarrow>
          if truthy i
          then find (\<lambda>t. provider_reference t = Some (py_str i)
                          \<and> provider_code t = ''myfatoorah'') txs
          else None)"
  by (simp add: local_tiers_def search_reference_def search_provider_reference_def
      split: option.splits)

text \<open>The loop over the providers, provider by provider: \<open>named p\<close> is the local
  transaction the reply of provider \<open>p\<close> names, if it names one.\<close>

lemma query_providers_step:
  assumes "named p = (case get_payment_status http p pid ''PaymentId'' of
                        Inr (JDict d) \<Rightarrow>
                          local_tiers txs (dict_get d ''CustomerReference'' JNull)
                            (dict_get d ''InvoiceId'' JNull)
                      | _ \<Rightarrow> None)"
  shows "query_providers http txs pid (p # ps) =
     (case named p of
        Some t \<Rightarrow> (Some t, status_requests p pid ''PaymentId'')
      | None \<Rightarrow> (fst (query_providers http txs pid ps),
                 status_requests p pid ''PaymentId'' @ snd (query_providers http txs pid ps)))"
proof (cases "get_payment_status http p pid ''PaymentId''")
  case (Inl e)
  then show ?thesis using assms by (simp add: bind_def split: prod.splits)
next
  case (Inr sd)
  then show ?thesis using assms
    by (cases sd) (auto simp: bind_def split: prod.splits option.splits)
qed

lemma query_providers_explicit:
  assumes "\<And>p. named p = (case get_payment_status http p pid ''PaymentId'' of
                        Inr (JDict d) \<Rightarrow>
                          local_tiers txs (dict_get d ''CustomerReference'' JNull)
                            (dict_get d ''InvoiceId'' JNull)
                      | _ \<Rightarrow> None)"
  shows "query_providers http txs pid ps =
     (case List.map_filter named ps of [] \<Rightarrow> None | t # ts \<Rightarrow> Some t,
      concat (map (\<lambda>p. status_requests p pid ''PaymentId'')
                (takeWhile (\<lambda>p. named p = None) ps
                 @ take 1 (dropWhile (\<lambda>p. named p = None) ps))))"
proof (induction ps)
  case Nil
  then show ?case by simp
next
  case (Cons p ps)
  show ?case
    unfolding query_providers_step [of named, OF assms]
    by (cases "named p") (simp_all add: Cons.IH)
qed

lemma named_sends:
  assumes "(case get_payment_status http p pid ''PaymentId'' of
              Inr (JDict d) \<Rightarrow> f d | _ \<Rightarrow> None) \<noteq> None"
  shows "status_requests p pid ''PaymentId'' \<noteq> []"
proof -
  from assms obtain sd where "get_payment_status http p pid ''PaymentId'' = Inr sd"
    by (cases "get_payment_status http p pid ''PaymentId''") auto
  from reply_needs_api_key [OF this] show ?thesis
    by (auto simp: status_requests_explicit)
qed

lemma locate_unfold:
  assumes "length self \<noteq> 1"
  shows "get_tx_from_notification_data http ps txs self ''myfatoorah'' nd =
     (case local_tiers txs (dict_get nd ''CustomerReference'' JNull)
             (dict_get nd ''InvoiceId'' JNull) of
        Some t \<Rightarrow> (Inr [t], [])
      | None \<Rightarrow>
          if truthy (dict_get nd ''paymentId'' JNull)
          then (case query_providers http txs (dict_get nd ''paymentId'' JNull)
                       (status_providers ps) of
                  (Some t, cs) \<Rightarrow> (Inr [t], cs)
                | (None, cs) \<Rightarrow> (Inl ValidationError, cs))
          else (Inl ValidationError, []))"
  using assms by (simp add: get_tx_from_notification_data_def Let_def)

lemma locate_explicit:
  assumes "length self \<noteq> 1"
    and "\<And>p. named p = (case get_payment_status http p (dict_get nd ''paymentId'' JNull)
                                ''PaymentId'' of
                        Inr (JDict d) \<Rightarrow>
                          local_tiers txs (dict_get d ''CustomerReference'' JNull)
                            (dict_get d ''InvoiceId'' JNull)
                      | _ \<Rightarrow> None)"
  shows "get_tx_from_notification_data http ps txs self ''myfatoorah'' nd =
     (case local_tiers txs (dict_get nd ''CustomerReference'' JNull)
             (dict_get nd ''InvoiceId'' JNull) of
        Some t \<Rightarrow> (Inr [t], [])
      | None \<Rightarrow>
          if truthy (dict_get nd ''paymentId'' JNull)
          then (case List.map_filter named (status_providers ps) of
                  [] \<Rightarrow> Inl ValidationError
                | t # ts \<Rightarrow> Inr [t],
                concat (map (\<lambda>p. status_requests p (dict_get nd ''paymentId'' JNull) ''PaymentId'')
                          (takeWhile (\<lambda>p. named p = None) (status_providers ps)
                           @ take 1 (dropWhile (\<lambda>p. named p = None) (status_providers ps)))))
          else (Inl ValidationError, []))"
  unfolding locate_unfold [OF assms(1)] query_providers_explicit [of named, OF assms(2)]
  by (simp split: option.splits list.splits)

lemma asked_sends:
  assumes "\<And>p. named p \<noteq> None \<Longrightarrow> sent p \<noteq> []"
  shows "concat (map sent (takeWhile (\<lambda>p. named p = None) cs
                           @ take 1 (dropWhile (\<lambda>p. named p = None) cs))) \<noteq> []
         \<longleftrightarrow> (\<exists>p\<in>set cs. sent p \<noteq> [])"
  using assms by (induction cs) auto

subsection \<open>The verifier and the webhook endpoint\<close>

lemma hex_char_ascii: "d < 16 \<Longrightarrow> (of_char (hex_char d) :: nat) < 128"
  by (simp add: hex_char_def)

lemma hexdigest_ascii: "is_ascii (hexdigest bs)"
proof -
  have "(of_char c :: nat) div 16 < 16" for c :: char
    using nat_of_char_less_256 [of c] by (simp add: less_mult_imp_div_less)
  then show ?thesis
    by (induction bs) (simp_all add: hexdigest_def is_ascii_def hex_char_ascii)
qed

lemma verify_true_iff:
  "myfatoorah_verify_webhook_signature mac p raw signature = Inr True \<longleftrightarrow>
     field_truthy (myfatoorah_webhook_secret p) \<and>
     signature = hexdigest (mac (encode_utf8 (the (myfatoorah_webhook_secret p))) raw)"
  using hexdigest_ascii
  by (auto simp: myfatoorah_verify_webhook_signature_def compare_digest_def Let_def)

lemma verify_unset:
  "\<not> field_truthy (myfatoorah_webhook_secret p) \<Longrightarrow>
     myfatoorah_verify_webhook_signature mac p raw signature = Inr False"
  by (simp add: myfatoorah_verify_webhook_signature_def)

lemma verify_ascii_returns:
  "is_ascii signature \<Longrightarrow>
     myfatoorah_verify_webhook_signature mac p raw signature =
       Inr (field_truthy (myfatoorah_webhook_secret p) \<and>
            signature = hexdigest (mac (encode_utf8 (the (myfatoorah_webhook_secret p))) raw))"
  using hexdigest_ascii
  by (auto simp: myfatoorah_verify_webhook_signature_def compare_digest_def Let_def)

lemma verify_true_ascii:
  "myfatoorah_verify_webhook_signature mac p raw signature = Inr True \<Longrightarrow> is_ascii signature"
  using hexdigest_ascii by (simp add: verify_true_iff)

lemma verify_any_all_false:
  "(\<And>p. p \<in> set ps \<Longrightarrow> myfatoorah_verify_webhook_signature mac p raw signature = Inr False)
     \<Longrightarrow> verify_any mac ps raw signature = Inr None"
  by (induction ps) (simp_all add: bind_def)

lemma verify_any_ascii:
  assumes "is_ascii signature"
  shows "verify_any mac ps raw signature =
     Inr (find (\<lambda>p. myfatoorah_verify_webhook_signature mac p raw signature = Inr True) ps)"
proof (induction ps)
  case Nil
  then show ?case by simp
next
  case (Cons p ps)
  then show ?case
    using verify_ascii_returns [OF assms, of mac p raw]
    by (simp add: bind_def)
qed

lemma verify_any_passes:
  assumes "p \<in> set ps"
    and "myfatoorah_verify_webhook_signature mac p raw signature = Inr True"
  shows "\<exists>q. verify_any mac ps raw signature = Inr (Some q)"
proof -
  have "is_ascii signature" using assms(2) by (rule verify_true_ascii)
  moreover have "find (\<lambda>p. myfatoorah_verify_webhook_signature mac p raw signature = Inr True) ps
                   \<noteq> None"
    using assms by (auto simp: find_None_iff)
  ultimately show ?thesis by (auto simp: verify_any_ascii)
qed

lemma webhook_unfold:
  assumes "json_loads w (raw_body req) = Some (JDict ed)"
    and "webhook_providers (providers w) \<noteq> []"
  shows "myfatoorah_webhook w req =
     (case verify_any (hmac_sha256 w) (webhook_providers (providers w)) (raw_body req)
             (webhook_signature req) of
        Inl e \<Rightarrow> (Inl e, \<lparr>stored = transactions w, called = [], posted = []\<rparr>)
      | Inr None \<Rightarrow>
          (Inr (json_response ''error'' ''Invalid signature'' 401),
           \<lparr>stored = transactions w, called = [], posted = []\<rparr>)
      | Inr (Some matching_provider) \<Rightarrow>
          (case process_webhook_event w (event_type_of ed) ed matching_provider of
             (Inl e, eff) \<Rightarrow>
               (Inr (json_response ''ok'' ''Event received but processing failed'' 200), eff)
           | (Inr u, eff) \<Rightarrow>
               (Inr (json_response ''ok'' ''Event processed successfully'' 200), eff)))"
  using assms by (simp add: myfatoorah_webhook_def Let_def)

subsection \<open>Notifications that agree on the identifiers\<close>

lemma locate_agree:
  assumes "map_of nd1 ''CustomerReference'' = map_of nd2 ''CustomerReference''"
    and "map_of nd1 ''paymentId'' = map_of nd2 ''paymentId''"
    and "map_of nd1 ''InvoiceId'' = map_of nd2 ''InvoiceId''"
  shows "get_tx_from_notification_data http ps txs self pc nd1
         = get_tx_from_notification_data http ps txs self pc nd2"
  using assms by (simp add: get_tx_from_notification_data_def dict_get_def)

lemma handle_agree:
  assumes "map_of nd1 ''paymentId'' = map_of nd2 ''paymentId''"
    and "map_of nd1 ''InvoiceId'' = map_of nd2 ''InvoiceId''"
  shows "handle_notification_data w self nd1 = handle_notification_data w self nd2"
proof -
  have "process_notification_data (primitives w) (network w) nd1 t
        = process_notification_data (primitives w) (network w) nd2 t" for t
    using status_key_agree [OF assms, of t]
    by (simp add: process_notification_data_def Let_def)
  then show ?thesis by (simp add: handle_notification_data_def split: list.splits)
qed

section \<open>The claims\<close>

text \<open>
  \<^bold>\<open>C1\<close> fails as stated: the rules are not independent.  On a reply whose
  invoice-level status is \<open>Pending\<close> and whose latest entry has the transaction-level
  status \<open>Failed\<close>, the effective status is \<open>failed\<close>, yet the reconciler requests the
  transition to pending, not to error: the rule for \<open>pending\<close> at either level comes
  before the rule for \<open>failed\<close> at either level.
\<close>

theorem reconciler_sets_pending_on_failed_entry:
  "get_payment_status (invoice_gateway pending_failed_data) (provider_id example_tx)
       (JStr ''0808'') ''PaymentId'' = Inr pending_failed_data
   \<and> status_shaped pending_failed_data
   \<and> invoice_level pending_failed_data = ''pending''
   \<and> effective_status pending_failed_data = ''failed''
   \<and> applied (process_notification_data guarded (invoice_gateway pending_failed_data)
                [(''paymentId'', JStr ''0808'')] example_tx)
       = [SetPending]"
proof -
  let ?d = "entry_fields pending_failed_data"
  have d: "pending_failed_data = JDict ?d" by code_simp
  have h1: "provider_code example_tx = ''myfatoorah''" by code_simp
  have h2: "status_key [(''paymentId'', JStr ''0808'')] example_tx
              = Some (JStr ''0808'', ''PaymentId'')" by code_simp
  have h3: "get_payment_status (invoice_gateway pending_failed_data) (provider_id example_tx)
              (JStr (py_str (JStr ''0808''))) ''PaymentId'' = Inr (JDict ?d)" by code_simp
  have h4: "status_shaped (JDict ?d)" by code_simp
  have iv: "invoice_level (JDict ?d) = ''pending''" by code_simp
  have ef: "effective_status (JDict ?d) = ''failed''" by code_simp
  have a: "status_action (invoice_level (JDict ?d)) (effective_status (JDict ?d))
             (latest_entry (JDict ?d)) = SetPending" by code_simp
  have "applied (process_notification_data guarded (invoice_gateway pending_failed_data)
                [(''paymentId'', JStr ''0808'')] example_tx) = [SetPending]"
    unfolding run_shaped [OF h1 h2 h3 h4] a by simp
  then show ?thesis using h3 h4 iv ef by (simp add: d [symmetric])
qed

text \<open>
  \<^bold>\<open>C1, amended.\<close>  For every successful status reply (of the shape the gateway
  documents), the reconciler takes as effective status the lower-cased
  \<open>TransactionStatus\<close> of the last entry of \<open>InvoiceTransactions\<close>, or the lower-cased
  \<open>InvoiceStatus\<close> when there is no entry, and requests exactly one transition, that of
  the first rule that applies, in this order: invoice-level \<open>paid\<close> or effective \<open>succss\<close>
  (the gateway's success token) gives done; otherwise \<open>pending\<close> or \<open>initiated\<close> at
  either level gives pending; otherwise \<open>expired\<close> or \<open>canceled\<close> at either level gives
  canceled, the message naming the invoice-level status or, when that is empty, the
  effective status; otherwise \<open>failed\<close> at either level gives error, the message built
  from the latest entry's \<open>Error\<close> or \<open>ErrorCode\<close>; otherwise error, the message naming
  the invoice-level status or, when that is empty, the effective status, or \<open>unknown\<close>
  when both are empty.
\<close>

theorem reconciler_applies_mapped_transition:
  assumes "provider_code t = ''myfatoorah''"
    and "status_key nd t = Some (key, kt)"
    and "get_payment_status http (provider_id t) (JStr (py_str key)) kt = Inr sd"
    and "status_shaped sd"
  shows "let r = process_notification_data prim http nd t;
             iv = invoice_level sd; ef = effective_status sd;
             paid = (iv = ''paid'' \<or> ef = ''succss'');
             pending = (iv \<in> {''pending'', ''initiated''} \<or> ef \<in> {''pending'', ''initiated''});
             canceled = (iv \<in> {''expired'', ''canceled''} \<or> ef \<in> {''expired'', ''canceled''});
             failed = (iv = ''failed'' \<or> ef = ''failed'')
         in raised r = None \<and> length (applied r) = 1
          \<and> lifecycle (tx r) = prim (last (applied r)) (lifecycle t)
          \<and> (paid \<longrightarrow> applied r = [SetDone])
          \<and> (\<not> paid \<and> pending \<longrightarrow> applied r = [SetPending])
          \<and> (\<not> paid \<and> \<not> pending \<and> canceled \<longrightarrow>
               applied r = [SetCanceled (''MyFatoorah: Payment was ''
                              @ (if iv \<noteq> [] then iv else ef) @ ''.'')])
          \<and> (\<not> paid \<and> \<not> pending \<and> \<not> canceled \<and> failed \<longrightarrow>
               applied r = [SetError (''MyFatoorah: Payment failed. ''
                              @ py_str (latest_error sd))])
          \<and> (\<not> paid \<and> \<not> pending \<and> \<not> canceled \<and> \<not> failed \<longrightarrow>
               applied r = [SetError (''MyFatoorah: Received unknown payment status: ''
                              @ (if iv \<noteq> [] then iv else if ef \<noteq> [] then ef
                                 else ''unknown''))])"
proof -
  let ?a = "status_action (invoice_level sd) (effective_status sd) (latest_entry sd)"
  let ?r0 = "\<lparr>tx = t, calls = status_requests (provider_id t) (JStr (py_str key)) kt,
              applied = [], raised = None\<rparr>"
  obtain d where run: "process_notification_data prim http nd t =
      set_state prim ?a (backfill (dict_get d ''InvoiceId'' JNull) ?r0)"
    using process_status_shaped [OF assms(4), of prim ?r0]
      run_with_reply [OF assms(1-3), of prim]
    by auto
  have "raised (process_notification_data prim http nd t) = None"
    and "applied (process_notification_data prim http nd t) = [?a]"
    and "lifecycle (tx (process_notification_data prim http nd t)) = prim ?a (lifecycle t)"
    by (simp_all add: run)
  then show ?thesis
    by (simp add: Let_def status_action_def latest_error_def)
qed

theorem reconciler_applies_mapped_transition_witness:
  "provider_code example_tx = ''myfatoorah''
   \<and> status_key [(''paymentId'', JStr ''0808'')] example_tx = Some (JStr ''0808'', ''PaymentId'')
   \<and> get_payment_status failed_gateway (provider_id example_tx) (JStr ''0808'') ''PaymentId''
       = Inr failed_data
   \<and> status_shaped failed_data
   \<and> effective_status failed_data = ''failed''
   \<and> applied (process_notification_data guarded failed_gateway
                [(''paymentId'', JStr ''0808'')] example_tx)
       = [SetError ''MyFatoorah: Payment failed. Insufficient funds'']"
proof -
  have h1: "provider_code example_tx = ''myfatoorah''" by code_simp
  have h2: "status_key [(''paymentId'', JStr ''0808'')] example_tx
              = Some (JStr ''0808'', ''PaymentId'')" by code_simp
  have h3: "get_payment_status failed_gateway (provider_id example_tx)
              (JStr (py_str (JStr ''0808''))) ''PaymentId'' = Inr failed_data" by code_simp
  have h4: "status_shaped failed_data" by code_simp
  have iv: "invoice_level failed_data = []" by code_simp
  have ef: "effective_status failed_data = ''failed''" by code_simp
  have er: "py_str (latest_error failed_data) = ''Insufficient funds''" by code_simp
  show ?thesis
    using reconciler_applies_mapped_transition [OF h1 h2 h3 h4, of guarded] h1 h2 h3 h4
    by (simp add: Let_def iv ef er)
qed

text \<open>
  \<^bold>\<open>C2\<close> fails as stated: a request that no candidate provider verifies is answered
  400, not 401, when there is no candidate provider at all (no enabled or test provider
  of this gateway with webhooks enabled).
\<close>

theorem webhook_without_candidates:
  "json_loads (example_world []) (raw_body (example_request ''ab01''))
     = Some (JDict example_event)
   \<and> webhook_providers (providers (example_world [])) = []
   \<and> fst (myfatoorah_webhook (example_world []) (example_request ''ab01''))
       = Inr (JsonResponse 400
               [(''status'', JStr ''error''), (''message'', JStr ''No active webhook provider'')])"
  by code_simp

text \<open>
  \<^bold>\<open>C2, amended.\<close>  For every webhook request whose body parses to a JSON object: with
  no candidate provider the endpoint answers 400; when some candidate provider's
  verifier passes it answers 200, with the message \<open>Event received but processing failed\<close>
  when the dispatch of the event raises and \<open>Event processed successfully\<close> otherwise,
  so never an error status after authentication; with at least one candidate, when every
  candidate's verifier returns false (as it does for every signature made of ASCII
  characters that no candidate accepts) it answers 401.
\<close>

theorem webhook_acknowledges:
  assumes "json_loads w (raw_body req) = Some (JDict ed)"
  shows "let out = fst (myfatoorah_webhook w req);
             candidates = webhook_providers (providers w);
             verify = (\<lambda>p. myfatoorah_verify_webhook_signature (hmac_sha256 w) p (raw_body req)
                               (webhook_signature req))
         in (candidates = [] \<longrightarrow>
               out = Inr (json_response ''error'' ''No active webhook provider'' 400))
          \<and> (\<forall>p. p \<in> set candidates \<and> verify p = Inr True \<longrightarrow>
               out = Inr (json_response ''ok''
                            (case fst (process_webhook_event w (event_type_of ed) ed p) of
                               Inl e \<Rightarrow> ''Event received but processing failed''
                             | Inr u \<Rightarrow> ''Event processed successfully'') 200))
          \<and> (candidates \<noteq> [] \<and> (\<forall>p. p \<in> set candidates \<longrightarrow> verify p = Inr False) \<longrightarrow>
               out = Inr (json_response ''error'' ''Invalid signature'' 401))
          \<and> (candidates \<noteq> [] \<and> is_ascii (webhook_signature req)
                \<and> (\<forall>p. p \<in> set candidates \<longrightarrow> verify p \<noteq> Inr True) \<longrightarrow>
               out = Inr (json_response ''error'' ''Invalid signature'' 401))"
proof -
  let ?cands = "webhook_providers (providers w)"
  let ?verify = "\<lambda>p. myfatoorah_verify_webhook_signature (hmac_sha256 w) p (raw_body req)
                       (webhook_signature req)"
  let ?out = "fst (myfatoorah_webhook w req)"
  have none: "?cands = [] \<longrightarrow>
      ?out = Inr (json_response ''error'' ''No active webhook provider'' 400)"
    using assms by (simp add: myfatoorah_webhook_def Let_def)
  have pass: "?out = Inr (json_response ''ok''
                  (case fst (process_webhook_event w (event_type_of ed) ed p) of
                     Inl e \<Rightarrow> ''Event received but processing failed''
                   | Inr u \<Rightarrow> ''Event processed successfully'') 200)"
    if "p \<in> set ?cands" "?verify p = Inr True" for p
  proof -
    from that obtain q where q: "verify_any (hmac_sha256 w) ?cands (raw_body req)
                                   (webhook_signature req) = Inr (Some q)"
      using verify_any_passes by blast
    have ne: "?cands \<noteq> []" using that by auto
    obtain a eff where "process_webhook_event w (event_type_of ed) ed p = (a, eff)"
      by (cases "process_webhook_event w (event_type_of ed) ed p")
    moreover from this have "process_webhook_event w (event_type_of ed) ed q = (a, eff)"
      by (simp add: process_webhook_event_def)
    ultimately show ?thesis
      unfolding webhook_unfold [OF assms ne] q by (cases a) simp_all
  qed
  have all_false: "?out = Inr (json_response ''error'' ''Invalid signature'' 401)"
    if "?cands \<noteq> []" "\<forall>p. p \<in> set ?cands \<longrightarrow> ?verify p = Inr False"
    using that verify_any_all_false [of ?cands "hmac_sha256 w" "raw_body req" "webhook_signature req"]
    by (simp add: webhook_unfold [OF assms])
  have ascii: "?out = Inr (json_response ''error'' ''Invalid signature'' 401)"
    if "?cands \<noteq> []" "is_ascii (webhook_signature req)"
      "\<forall>p. p \<in> set ?cands \<longrightarrow> ?verify p \<noteq> Inr True"
  proof -
    have "find (\<lambda>p. ?verify p = Inr True) ?cands = None"
      using that(3) by (auto simp: find_None_iff)
    then show ?thesis
      using that(1) verify_any_ascii [OF that(2), of "hmac_sha256 w" ?cands "raw_body req"]
      by (simp add: webhook_unfold [OF assms])
  qed
  show ?thesis
    unfolding Let_def using none pass all_false ascii by blast
qed

theorem webhook_acknowledges_witness:
  "json_loads (example_world [example_provider]) (raw_body (example_request ''ab01''))
     = Some (JDict example_event)
   \<and> example_provider \<in> set (webhook_providers (providers (example_world [example_provider])))
   \<and> myfatoorah_verify_webhook_signature (hmac_sha256 (example_world [example_provider]))
        example_provider (raw_body (example_request ''ab01''))
        (webhook_signature (example_request ''ab01'')) = Inr True
   \<and> fst (process_webhook_event (example_world [example_provider])
            (event_type_of example_event) example_event example_provider)
       = Inl ValidationError
   \<and> fst (myfatoorah_webhook (example_world [example_provider]) (example_request ''ab01''))
       = Inr (json_response ''ok'' ''Event received but processing failed'' 200)"
proof -
  let ?w = "example_world [example_provider]" and ?r = "example_request ''ab01''"
  have j: "json_loads ?w (raw_body ?r) = Some (JDict example_event)" by code_simp
  have c: "example_provider \<in> set (webhook_providers (providers ?w))" by code_simp
  have v: "myfatoorah_verify_webhook_signature (hmac_sha256 ?w) example_provider (raw_body ?r)
             (webhook_signature ?r) = Inr True" by code_simp
  have d: "fst (process_webhook_event ?w (event_type_of example_event) example_event
                  example_provider) = Inl ValidationError" by code_simp
  from webhook_acknowledges [OF j]
  have "fst (myfatoorah_webhook ?w ?r)
          = Inr (json_response ''ok'' ''Event received but processing failed'' 200)"
    unfolding Let_def using c v d by simp
  then show ?thesis using j c v d by simp
qed

text \<open>
  \<^bold>\<open>C3\<close> fails as stated: the store holds a transaction whose reference is the
  payload's \<open>CustomerReference\<close>, but it belongs to another gateway.  The locator does
  not return it; with a \<open>paymentId\<close> in the payload it asks the gateway, and ends with
  \<open>ValidationError\<close>.
\<close>

theorem locator_misses_foreign_transaction:
  "foreign_tx \<in> set [foreign_tx]
   \<and> JStr (reference foreign_tx)
       = dict_get [(''CustomerReference'', JStr ''S00042''), (''paymentId'', JStr ''0808'')]
           ''CustomerReference'' JNull
   \<and> get_tx_from_notification_data timeout_gateway [example_provider] [foreign_tx] []
         ''myfatoorah'' [(''CustomerReference'', JStr ''S00042''), (''paymentId'', JStr ''0808'')]
       = (Inl ValidationError, [example_status_request])"
  by code_simp

text \<open>
  \<^bold>\<open>C3, amended.\<close>  The locator (called for this gateway, on a recordset that is not
  a single transaction) tries its tiers in a fixed order and the first hit wins: the
  first transaction of this gateway whose reference equals the payload's non-empty
  \<open>CustomerReference\<close>; else the first transaction of this gateway whose
  \<open>provider_reference\<close> equals the payload's non-empty \<open>InvoiceId\<close> as a string; else,
  with a non-empty \<open>paymentId\<close>, the transaction named by the status reply of the first
  enabled or test provider of this gateway whose reply names one (the same two lookups,
  on the reply's \<open>CustomerReference\<close> and \<open>InvoiceId\<close>); else not found.  A hit of one
  of the two local tiers makes no status call.  In particular, for every store that
  contains a transaction of this gateway whose non-empty reference equals the payload's
  \<open>CustomerReference\<close>, the locator returns a transaction of this gateway with that
  reference (that very transaction when references are unique in the store) and makes
  no status call.
\<close>

theorem locator_first_hit_wins:
  assumes "length self \<noteq> 1"
  shows "let ref = dict_get nd ''CustomerReference'' JNull;
             invoice_id = dict_get nd ''InvoiceId'' JNull;
             payment_id = dict_get nd ''paymentId'' JNull;
             by_reference = (\<lambda>r. if truthy r
                then find (\<lambda>t. JStr (reference t) = r \<and> provider_code t = ''myfatoorah'') txs
                else None);
             by_invoice = (\<lambda>i. if truthy i
                then find (\<lambda>t. provider_reference t = Some (py_str i)
                                \<and> provider_code t = ''myfatoorah'') txs
                else None);
             named = (\<lambda>p. case get_payment_status http p payment_id ''PaymentId'' of
                 Inr (JDict d) \<Rightarrow>
                   (case by_reference (dict_get d ''CustomerReference'' JNull) of
                      Some t \<Rightarrow> Some t
                    | None \<Rightarrow> by_invoice (dict_get d ''InvoiceId'' JNull))
               | _ \<Rightarrow> None);
             candidates = filter (\<lambda>p. code p = ''myfatoorah''
                                       \<and> (state p = Enabled \<or> state p = Test)) ps;
             out = get_tx_from_notification_data http ps txs self ''myfatoorah'' nd
         in fst out =
              (case by_reference ref of
                 Some t \<Rightarrow> Inr [t]
               | None \<Rightarrow>
                   (case by_invoice invoice_id of
                      Some t \<Rightarrow> Inr [t]
                    | None \<Rightarrow>
                        if truthy payment_id
                        then (case List.map_filter named candidates of
                                t # ts \<Rightarrow> Inr [t]
                              | [] \<Rightarrow> Inl ValidationError)
                        else Inl ValidationError))
          \<and> (by_reference ref \<noteq> None \<or> by_invoice invoice_id \<noteq> None \<longrightarrow> snd out = [])
          \<and> (\<forall>t. t \<in> set txs \<and> provider_code t = ''myfatoorah'' \<and> reference t \<noteq> []
                  \<and> ref = JStr (reference t) \<longrightarrow>
                (\<exists>t'. out = (Inr [t'], []) \<and> t' \<in> set txs \<and> reference t' = reference t
                      \<and> provider_code t' = ''myfatoorah''
                      \<and> (distinct (map reference txs) \<longrightarrow> t' = t)))"
proof -
  define by_reference where "by_reference = (\<lambda>r. if truthy r
                then find (\<lambda>t. JStr (reference t) = r \<and> provider_code t = ''myfatoorah'') txs
                else None)"
  define by_invoice where "by_invoice = (\<lambda>i. if truthy i
                then find (\<lambda>t. provider_reference t = Some (py_str i)
                                \<and> provider_code t = ''myfatoorah'') txs
                else None)"
  define named where "named = (\<lambda>p. case get_payment_status http p
                                        (dict_get nd ''paymentId'' JNull) ''PaymentId'' of
                 Inr (JDict d) \<Rightarrow>
                   (case by_reference (dict_get d ''CustomerReference'' JNull) of
                      Some t \<Rightarrow> Some t
                    | None \<Rightarrow> by_invoice (dict_get d ''InvoiceId'' JNull))
               | _ \<Rightarrow> None)"
  let ?out = "get_tx_from_notification_data http ps txs self ''myfatoorah'' nd"
  let ?ref = "dict_get nd ''CustomerReference'' JNull"
  let ?inv = "dict_get nd ''InvoiceId'' JNull"
  have lt: "local_tiers txs r i = (case by_reference r of Some t \<Rightarrow> Some t | None \<Rightarrow> by_invoice i)"
    for r i
    unfolding by_reference_def by_invoice_def by (rule local_tiers_explicit)
  have nm: "named p = (case get_payment_status http p (dict_get nd ''paymentId'' JNull)
                                ''PaymentId'' of
                        Inr (JDict d) \<Rightarrow>
                          local_tiers txs (dict_get d ''CustomerReference'' JNull)
                            (dict_get d ''InvoiceId'' JNull)
                      | _ \<Rightarrow> None)" for p
    unfolding named_def lt ..
  have out: "?out =
     (case (case by_reference ?ref of Some t \<Rightarrow> Some t | None \<Rightarrow> by_invoice ?inv) of
        Some t \<Rightarrow> (Inr [t], [])
      | None \<Rightarrow>
          if truthy (dict_get nd ''paymentId'' JNull)
          then (case List.map_filter named (status_providers ps) of
                  [] \<Rightarrow> Inl ValidationError
                | t # ts \<Rightarrow> Inr [t],
                concat (map (\<lambda>p. status_requests p (dict_get nd ''paymentId'' JNull) ''PaymentId'')
                          (takeWhile (\<lambda>p. named p = None) (status_providers ps)
                           @ take 1 (dropWhile (\<lambda>p. named p = None) (status_providers ps)))))
          else (Inl ValidationError, []))"
    using locate_explicit [where named = named, OF assms nm] by (simp only: lt)
  have first: "fst ?out =
              (case by_reference ?ref of
                 Some t \<Rightarrow> Inr [t]
               | None \<Rightarrow>
                   (case by_invoice ?inv of
                      Some t \<Rightarrow> Inr [t]
                    | None \<Rightarrow>
                        if truthy (dict_get nd ''paymentId'' JNull)
                        then (case List.map_filter named (status_providers ps) of
                                t # ts \<Rightarrow> Inr [t]
                              | [] \<Rightarrow> Inl ValidationError)
                        else Inl ValidationError))"
    unfolding out by (simp split: option.splits list.splits)
  have quiet: "by_reference ?ref \<noteq> None \<or> by_invoice ?inv \<noteq> None \<longrightarrow> snd ?out = []"
    unfolding out by (auto split: option.splits)
  have mine: "\<exists>t'. ?out = (Inr [t'], []) \<and> t' \<in> set txs \<and> reference t' = reference t
                      \<and> provider_code t' = ''myfatoorah''
                      \<and> (distinct (map reference txs) \<longrightarrow> t' = t)"
    if t: "t \<in> set txs" "provider_code t = ''myfatoorah''" "reference t \<noteq> []"
      "?ref = JStr (reference t)" for t
  proof -
    let ?P = "\<lambda>u. JStr (reference u) = JStr (reference t) \<and> provider_code u = ''myfatoorah''"
    from t obtain t' where t': "find ?P txs = Some t'"
      by (cases "find ?P txs") (auto simp: find_None_iff)
    then have in_store: "t' \<in> set txs" "reference t' = reference t" "provider_code t' = ''myfatoorah''"
      by (auto simp: find_Some_iff)
    have br: "by_reference ?ref = Some t'"
      using t t' by (simp add: by_reference_def)
    have "?out = (Inr [t'], [])" unfolding out br by simp
    moreover have "t' = t" if "distinct (map reference txs)"
      using that in_store t(1) by (meson distinct_map inj_onD)
    ultimately show ?thesis using in_store by blast
  qed
  show ?thesis
    unfolding Let_def
    using first quiet mine
    unfolding by_reference_def by_invoice_def named_def status_providers_def
    by blast
qed

theorem locator_first_hit_wins_witness:
  "length ([] :: lifecycle_fields transaction list) \<noteq> 1
   \<and> get_tx_from_notification_data paid_gateway [example_provider] [example_tx, invoiced_tx] []
         ''myfatoorah'' [(''CustomerReference'', JStr ''S00042''), (''InvoiceId'', JInt 77),
                         (''paymentId'', JStr ''0808'')]
       = (Inr [example_tx], [])
   \<and> fst (get_tx_from_notification_data paid_gateway [example_provider] [example_tx, invoiced_tx] []
         ''myfatoorah'' [(''CustomerReference'', JStr ''S00099''), (''InvoiceId'', JInt 77),
                         (''paymentId'', JStr ''0808'')])
       = Inr [invoiced_tx]
   \<and> fst (get_tx_from_notification_data paid_gateway [keyless_provider, example_provider]
         [invoiced_tx, example_tx] [] ''myfatoorah'' [(''paymentId'', JStr ''0808'')])
       = Inr [example_tx]
   \<and> fst (get_tx_from_notification_data timeout_gateway [example_provider] [example_tx] []
         ''myfatoorah'' [(''paymentId'', JStr ''0808'')])
       = Inl ValidationError"
proof -
  have h: "length ([] :: lifecycle_fields transaction list) \<noteq> 1" by simp
  let ?nd1 = "[(''CustomerReference'', JStr ''S00042''), (''InvoiceId'', JInt 77),
               (''paymentId'', JStr ''0808'')]"
  have c: "example_tx \<in> set [example_tx, invoiced_tx]" "provider_code example_tx = ''myfatoorah''"
    "reference example_tx \<noteq> []"
    "dict_get ?nd1 ''CustomerReference'' JNull = JStr (reference example_tx)"
    "distinct (map reference [example_tx, invoiced_tx])"
    by code_simp+
  have a: "get_tx_from_notification_data paid_gateway [example_provider] [example_tx, invoiced_tx] []
         ''myfatoorah'' ?nd1 = (Inr [example_tx], [])"
    using locator_first_hit_wins [OF h, of ?nd1 "[example_tx, invoiced_tx]" paid_gateway
        "[example_provider]"] c
    unfolding Let_def by blast
  let ?nd2 = "[(''CustomerReference'', JStr ''S00099''), (''InvoiceId'', JInt 77),
               (''paymentId'', JStr ''0808'')]"
  note second = locator_first_hit_wins [OF h, of ?nd2 "[example_tx, invoiced_tx]" paid_gateway
        "[example_provider]", unfolded Let_def, THEN conjunct1]
  have b: "fst (get_tx_from_notification_data paid_gateway [example_provider]
                  [example_tx, invoiced_tx] [] ''myfatoorah'' ?nd2) = Inr [invoiced_tx]"
    unfolding second by code_simp
  let ?nd3 = "[(''paymentId'', JStr ''0808'')]"
  note third = locator_first_hit_wins [OF h, of ?nd3 "[invoiced_tx, example_tx]" paid_gateway
        "[keyless_provider, example_provider]", unfolded Let_def, THEN conjunct1]
  have c3: "fst (get_tx_from_notification_data paid_gateway [keyless_provider, example_provider]
         [invoiced_tx, example_tx] [] ''myfatoorah'' ?nd3) = Inr [example_tx]"
    unfolding third by code_simp
  note fourth = locator_first_hit_wins [OF h, of ?nd3 "[example_tx]" timeout_gateway
        "[example_provider]", unfolded Let_def, THEN conjunct1]
  have d: "fst (get_tx_from_notification_data timeout_gateway [example_provider] [example_tx] []
         ''myfatoorah'' ?nd3) = Inl ValidationError"
    unfolding fourth by code_simp
  show ?thesis using h a b c3 d by simp
qed

text \<open>
  \<^bold>\<open>C4\<close> fails as stated: the locator asks the gateway although the payload carries a
  \<open>CustomerReference\<close>, when no local transaction has that reference and a \<open>paymentId\<close> is
  there as well.
\<close>

theorem locator_asks_gateway_despite_reference:
  "truthy (dict_get [(''CustomerReference'', JStr ''S00099''), (''paymentId'', JStr ''0808'')]
             ''CustomerReference'' JNull)
   \<and> get_tx_from_notification_data paid_gateway [example_provider] [example_tx] []
         ''myfatoorah'' [(''CustomerReference'', JStr ''S00099''), (''paymentId'', JStr ''0808'')]
       = (Inr [example_tx], [example_status_request])"
  by code_simp

text \<open>
  \<^bold>\<open>C4, amended.\<close>  The locator makes its round trip to the gateway exactly when the
  payload has a non-empty \<open>paymentId\<close> and neither of the two local tiers found a
  transaction; whether the payload also carries a \<open>CustomerReference\<close> or an \<open>InvoiceId\<close>
  does not matter.  It goes through the enabled and test providers of this gateway in
  order, retries the two local tiers on the \<open>CustomerReference\<close> and \<open>InvoiceId\<close> of each
  reply, and stops at the first provider whose reply names a local transaction, which it
  returns; when no reply names one it ends with \<open>ValidationError\<close>.  The requests sent
  are \<open>GetPaymentStatus\<close> by \<open>paymentId\<close>, one to each provider gone through that has an
  API key; a provider without one is passed over and sent nothing.  So a status request
  goes out exactly when the round trip is made and some enabled or test provider has an
  API key, and when a local tier finds a transaction no status call is made.
\<close>

theorem locator_round_trip:
  assumes "length self \<noteq> 1"
  shows "let ref = dict_get nd ''CustomerReference'' JNull;
             invoice_id = dict_get nd ''InvoiceId'' JNull;
             payment_id = dict_get nd ''paymentId'' JNull;
             by_reference = (\<lambda>r. if truthy r
                then find (\<lambda>t. JStr (reference t) = r \<and> provider_code t = ''myfatoorah'') txs
                else None);
             by_invoice = (\<lambda>i. if truthy i
                then find (\<lambda>t. provider_reference t = Some (py_str i)
                                \<and> provider_code t = ''myfatoorah'') txs
                else None);
             named = (\<lambda>p. case get_payment_status http p payment_id ''PaymentId'' of
                 Inr (JDict d) \<Rightarrow>
                   (case by_reference (dict_get d ''CustomerReference'' JNull) of
                      Some t \<Rightarrow> Some t
                    | None \<Rightarrow> by_invoice (dict_get d ''InvoiceId'' JNull))
               | _ \<Rightarrow> None);
             sent = (\<lambda>p. case myfatoorah_get_api_key p of
                 Inl e \<Rightarrow> []
               | Inr api_key \<Rightarrow>
                   [\<lparr>req_method = ''POST'',
                     req_url = myfatoorah_get_api_url p @ ''/v2/GetPaymentStatus'',
                     req_headers = [(''Authorization'', ''Bearer '' @ api_key),
                                    (''Content-Type'', ''application/json''),
                                    (''Accept'', ''application/json'')],
                     req_json = Some (JDict [(''Key'', payment_id),
                                             (''KeyType'', JStr ''PaymentId'')])\<rparr>]);
             candidates = filter (\<lambda>p. code p = ''myfatoorah''
                                       \<and> (state p = Enabled \<or> state p = Test)) ps;
             asked = takeWhile (\<lambda>p. named p = None) candidates
                     @ take 1 (dropWhile (\<lambda>p. named p = None) candidates);
             round_trip = (truthy payment_id \<and> by_reference ref = None
                           \<and> by_invoice invoice_id = None);
             out = get_tx_from_notification_data http ps txs self ''myfatoorah'' nd
         in snd out = (if round_trip then concat (map sent asked) else [])
          \<and> (snd out \<noteq> [] \<longleftrightarrow> round_trip \<and> (\<exists>p\<in>set candidates. sent p \<noteq> []))
          \<and> (round_trip \<longrightarrow>
                fst out = (case List.map_filter named candidates of
                             t # ts \<Rightarrow> Inr [t]
                           | [] \<Rightarrow> Inl ValidationError))"
proof -
  define by_reference where "by_reference = (\<lambda>r. if truthy r
                then find (\<lambda>t. JStr (reference t) = r \<and> provider_code t = ''myfatoorah'') txs
                else None)"
  define by_invoice where "by_invoice = (\<lambda>i. if truthy i
                then find (\<lambda>t. provider_reference t = Some (py_str i)
                                \<and> provider_code t = ''myfatoorah'') txs
                else None)"
  define named where "named = (\<lambda>p. case get_payment_status http p
                                        (dict_get nd ''paymentId'' JNull) ''PaymentId'' of
                 Inr (JDict d) \<Rightarrow>
                   (case by_reference (dict_get d ''CustomerReference'' JNull) of
                      Some t \<Rightarrow> Some t
                    | None \<Rightarrow> by_invoice (dict_get d ''InvoiceId'' JNull))
               | _ \<Rightarrow> None)"
  define sent where "sent = (\<lambda>p. case myfatoorah_get_api_key p of
                 Inl e \<Rightarrow> []
               | Inr api_key \<Rightarrow>
                   [\<lparr>req_method = ''POST'',
                     req_url = myfatoorah_get_api_url p @ ''/v2/GetPaymentStatus'',
                     req_headers = [(''Authorization'', ''Bearer '' @ api_key),
                                    (''Content-Type'', ''application/json''),
                                    (''Accept'', ''application/json'')],
                     req_json = Some (JDict [(''Key'', dict_get nd ''paymentId'' JNull),
                                             (''KeyType'', JStr ''PaymentId'')])\<rparr>])"
  define candidates where "candidates = filter (\<lambda>p. code p = ''myfatoorah''
                                       \<and> (state p = Enabled \<or> state p = Test)) ps"
  define asked where "asked = takeWhile (\<lambda>p. named p = None) candidates
                     @ take 1 (dropWhile (\<lambda>p. named p = None) candidates)"
  let ?out = "get_tx_from_notification_data http ps txs self ''myfatoorah'' nd"
  let ?ref = "dict_get nd ''CustomerReference'' JNull"
  let ?inv = "dict_get nd ''InvoiceId'' JNull"
  let ?pid = "dict_get nd ''paymentId'' JNull"
  let ?round_trip = "truthy ?pid \<and> by_reference ?ref = None \<and> by_invoice ?inv = None"
  have lt: "local_tiers txs r i = (case by_reference r of Some t \<Rightarrow> Some t | None \<Rightarrow> by_invoice i)"
    for r i
    unfolding by_reference_def by_invoice_def by (rule local_tiers_explicit)
  have nm: "named p = (case get_payment_status http p ?pid ''PaymentId'' of
                        Inr (JDict d) \<Rightarrow>
                          local_tiers txs (dict_get d ''CustomerReference'' JNull)
                            (dict_get d ''InvoiceId'' JNull)
                      | _ \<Rightarrow> None)" for p
    unfolding named_def lt ..
  have st: "status_requests p ?pid ''PaymentId'' = sent p" for p
    unfolding sent_def by (rule status_requests_explicit)
  have out: "?out =
     (case (case by_reference ?ref of Some t \<Rightarrow> Some t | None \<Rightarrow> by_invoice ?inv) of
        Some t \<Rightarrow> (Inr [t], [])
      | None \<Rightarrow>
          if truthy ?pid
          then (case List.map_filter named candidates of
                  [] \<Rightarrow> Inl ValidationError
                | t # ts \<Rightarrow> Inr [t],
                concat (map sent asked))
          else (Inl ValidationError, []))"
    using locate_explicit [where named = named, OF assms nm]
    by (simp only: lt st asked_def candidates_def status_providers_def)
  have calls: "snd ?out = (if ?round_trip then concat (map sent asked) else [])"
    unfolding out by (auto split: option.splits)
  have sends: "sent p \<noteq> []" if "named p \<noteq> None" for p
    using named_sends [where http = http and p = p and pid = ?pid] that
    unfolding st named_def by simp
  have some: "concat (map sent asked) \<noteq> [] \<longleftrightarrow> (\<exists>p\<in>set candidates. sent p \<noteq> [])"
    unfolding asked_def using sends by (rule asked_sends)
  have nonempty: "snd ?out \<noteq> [] \<longleftrightarrow> ?round_trip \<and> (\<exists>p\<in>set candidates. sent p \<noteq> [])"
    unfolding calls using some by (simp only: split: if_splits) blast
  have found: "?round_trip \<longrightarrow>
                fst ?out = (case List.map_filter named candidates of
                             t # ts \<Rightarrow> Inr [t]
                           | [] \<Rightarrow> Inl ValidationError)"
    unfolding out by (auto split: list.splits)
  show ?thesis
    unfolding Let_def
    using calls nonempty found
    unfolding by_reference_def by_invoice_def named_def sent_def candidates_def asked_def
    by blast
qed

theorem locator_round_trip_witness:
  "length ([] :: lifecycle_fields transaction list) \<noteq> 1
   \<and> myfatoorah_get_api_key keyless_provider = Inl ValidationError
   \<and> get_tx_from_notification_data paid_gateway
         [keyless_provider, example_provider,
          example_provider\<lparr>myfatoorah_country_code := Some ''SA''\<rparr>]
         [example_tx] [] ''myfatoorah''
         [(''CustomerReference'', JStr ''S00099''), (''paymentId'', JStr ''0808'')]
       = (Inr [example_tx], [example_status_request])
   \<and> get_tx_from_notification_data timeout_gateway [example_provider, keyless_provider]
         [example_tx] [] ''myfatoorah''
         [(''CustomerReference'', JStr ''S00099''), (''paymentId'', JStr ''0808'')]
       = (Inl ValidationError, [example_status_request])
   \<and> snd (get_tx_from_notification_data paid_gateway [example_provider]
         [example_tx] [] ''myfatoorah''
         [(''CustomerReference'', JStr ''S00042''), (''paymentId'', JStr ''0808'')]) = []"
proof -
  have h: "length ([] :: lifecycle_fields transaction list) \<noteq> 1" by simp
  let ?nd = "[(''CustomerReference'', JStr ''S00099''), (''paymentId'', JStr ''0808'')]"
  let ?ps = "[keyless_provider, example_provider,
              example_provider\<lparr>myfatoorah_country_code := Some ''SA''\<rparr>]"
  have rt: "truthy (dict_get ?nd ''paymentId'' JNull)
      \<and> (if truthy (dict_get ?nd ''CustomerReference'' JNull)
          then find (\<lambda>t. JStr (reference t) = dict_get ?nd ''CustomerReference'' JNull
                          \<and> provider_code t = ''myfatoorah'') [example_tx]
          else None) = None
      \<and> (if truthy (dict_get ?nd ''InvoiceId'' JNull)
          then find (\<lambda>t. provider_reference t = Some (py_str (dict_get ?nd ''InvoiceId'' JNull))
                          \<and> provider_code t = ''myfatoorah'') [example_tx]
          else None) = None"
    by code_simp
  note calls1 = locator_round_trip [OF h, of ?nd "[example_tx]" paid_gateway ?ps,
      unfolded Let_def, THEN conjunct1]
  note found1 = locator_round_trip [OF h, of ?nd "[example_tx]" paid_gateway ?ps,
      unfolded Let_def, THEN conjunct2, THEN conjunct2, THEN mp, OF rt]
  have a: "get_tx_from_notification_data paid_gateway ?ps [example_tx] [] ''myfatoorah'' ?nd
             = (Inr [example_tx], [example_status_request])"
    unfolding prod_eq_iff fst_conv snd_conv calls1 found1 by code_simp
  note calls2 = locator_round_trip [OF h, of ?nd "[example_tx]" timeout_gateway
      "[example_provider, keyless_provider]", unfolded Let_def, THEN conjunct1]
  note found2 = locator_round_trip [OF h, of ?nd "[example_tx]" timeout_gateway
      "[example_provider, keyless_provider]",
      unfolded Let_def, THEN conjunct2, THEN conjunct2, THEN mp, OF rt]
  have b: "get_tx_from_notification_data timeout_gateway [example_provider, keyless_provider]
             [example_tx] [] ''myfatoorah'' ?nd
             = (Inl ValidationError, [example_status_request])"
    unfolding prod_eq_iff fst_conv snd_conv calls2 found2 by code_simp
  note calls3 = locator_round_trip [OF h,
      of "[(''CustomerReference'', JStr ''S00042''), (''paymentId'', JStr ''0808'')]"
         "[example_tx]" paid_gateway "[example_provider]", unfolded Let_def, THEN conjunct1]
  have c: "snd (get_tx_from_notification_data paid_gateway [example_provider]
         [example_tx] [] ''myfatoorah''
         [(''CustomerReference'', JStr ''S00042''), (''paymentId'', JStr ''0808'')]) = []"
    unfolding calls3 by code_simp
  have k: "myfatoorah_get_api_key keyless_provider = Inl ValidationError" by code_simp
  show ?thesis using h k a b c by simp
qed

text \<open>
  \<^bold>\<open>C5\<close> does not hold of the code where it says that no exception of the status
  fetch escapes and that every run ends with one transition: when the gateway answers
  the status request with HTTP 200 and the JSON body \<^verbatim>\<open>[1, 2]\<close>, the gateway client's
  \<open>response_data.get('IsSuccess')\<close> raises \<open>AttributeError\<close>, which the reconciler's
  \<open>except ValidationError\<close> does not catch: the run ends with that exception and
  requests no transition.
\<close>

theorem reconciler_lets_attribute_error_escape:
  "list_gateway example_status_request = Response 200 (Some (JList [JInt 1, JInt 2]))
   \<and> process_notification_data guarded list_gateway [(''paymentId'', JStr ''0808'')] example_tx
       = \<lparr>tx = example_tx, calls = [example_status_request], applied = [],
          raised = Some AttributeError\<rparr>"
  by code_simp

text \<open>
  \<^bold>\<open>X5.\<close>  What the reconciler does contain, on a transaction of this gateway.  With
  no identifier (no non-empty \<open>paymentId\<close> or \<open>InvoiceId\<close> in the notification and no
  non-empty \<open>provider_reference\<close> on the transaction) it sets the transaction to error
  and sends nothing.  With an identifier the status call is keyed by the \<open>paymentId\<close>, or
  else the \<open>InvoiceId\<close>, or else the \<open>provider_reference\<close>; when that call raises
  \<open>ValidationError\<close> (timeout, connection failure, a body that is no JSON, a rejection
  by the gateway, a missing API key) the transaction is set to error with the message
  \<open>Failed to verify payment status\<close> and nothing is retried.  No run is left by a
  \<open>ValidationError\<close>, sends more than one request (none when the API key is missing) or
  requests more than one transition.  When every reply of the transport has the
  gateway's shape, every run ends without an exception and with exactly one transition.
\<close>

theorem reconciler_contains_validation_errors:
  assumes "provider_code t = ''myfatoorah''"
  shows "let r = process_notification_data prim http nd t;
             payment_id = dict_get nd ''paymentId'' JNull;
             invoice_id = dict_get nd ''InvoiceId'' JNull;
             has_reference = (provider_reference t \<noteq> None \<and> provider_reference t \<noteq> Some []);
             identified = (truthy payment_id \<or> truthy invoice_id \<or> has_reference);
             key = (if truthy payment_id then py_str payment_id
                    else if truthy invoice_id then py_str invoice_id
                    else the (provider_reference t));
             key_type = (if truthy payment_id then ''PaymentId'' else ''InvoiceId'');
             fetched = get_payment_status http (provider_id t) (JStr key) key_type;
             sent = status_requests (provider_id t) (JStr key) key_type;
             missing = SetError ''MyFatoorah: Missing payment identification in the notification.'';
             unverified = SetError ''MyFatoorah: Failed to verify payment status.''
         in (\<not> identified \<longrightarrow>
               r = \<lparr>tx = t\<lparr>lifecycle := prim missing (lifecycle t)\<rparr>, calls = [],
                    applied = [missing], raised = None\<rparr>)
          \<and> (identified \<and> fetched = Inl ValidationError \<longrightarrow>
               r = \<lparr>tx = t\<lparr>lifecycle := prim unverified (lifecycle t)\<rparr>, calls = sent,
                    applied = [unverified], raised = None\<rparr>)
          \<and> (identified \<longrightarrow> calls r = sent)
          \<and> raised r \<noteq> Some ValidationError
          \<and> length (calls r) \<le> 1 \<and> length (applied r) \<le> 1
          \<and> ((\<forall>req. well_formed_reply (http req)) \<longrightarrow>
               raised r = None \<and> length (applied r) = 1)"
proof -
  let ?r = "process_notification_data prim http nd t"
  let ?pid = "dict_get nd ''paymentId'' JNull"
  let ?inv = "dict_get nd ''InvoiceId'' JNull"
  let ?has = "provider_reference t \<noteq> None \<and> provider_reference t \<noteq> Some []"
  let ?key = "if truthy ?pid then py_str ?pid else if truthy ?inv then py_str ?inv
              else the (provider_reference t)"
  let ?kt = "if truthy ?pid then ''PaymentId'' else ''InvoiceId''"
  let ?missing = "SetError ''MyFatoorah: Missing payment identification in the notification.''"
  let ?unverified = "SetError ''MyFatoorah: Failed to verify payment status.''"
  have none: "status_key nd t = None" if "\<not> (truthy ?pid \<or> truthy ?inv \<or> ?has)"
    using that by (simp add: status_key_explicit)
  have some: "\<exists>k. status_key nd t = Some (k, ?kt) \<and> py_str k = ?key"
    if "truthy ?pid \<or> truthy ?inv \<or> ?has"
    using that by (auto simp: status_key_explicit)
  have a: "\<not> (truthy ?pid \<or> truthy ?inv \<or> ?has) \<longrightarrow>
      ?r = \<lparr>tx = t\<lparr>lifecycle := prim ?missing (lifecycle t)\<rparr>, calls = [],
            applied = [?missing], raised = None\<rparr>"
    using run_without_key [OF assms none, of prim http] by blast
  have b: "(truthy ?pid \<or> truthy ?inv \<or> ?has)
      \<and> get_payment_status http (provider_id t) (JStr ?key) ?kt = Inl ValidationError \<longrightarrow>
      ?r = \<lparr>tx = t\<lparr>lifecycle := prim ?unverified (lifecycle t)\<rparr>,
            calls = status_requests (provider_id t) (JStr ?key) ?kt,
            applied = [?unverified], raised = None\<rparr>"
  proof (intro impI, elim conjE)
    assume i: "truthy ?pid \<or> truthy ?inv \<or> ?has"
      and f: "get_payment_status http (provider_id t) (JStr ?key) ?kt = Inl ValidationError"
    from some [OF i] obtain k where k: "status_key nd t = Some (k, ?kt)" "py_str k = ?key"
      by blast
    from run_with_gateway_error [OF assms k(1), of http prim] f k(2)
    show "?r = \<lparr>tx = t\<lparr>lifecycle := prim ?unverified (lifecycle t)\<rparr>,
            calls = status_requests (provider_id t) (JStr ?key) ?kt,
            applied = [?unverified], raised = None\<rparr>"
      by simp
  qed
  have c: "(truthy ?pid \<or> truthy ?inv \<or> ?has) \<longrightarrow>
      calls ?r = status_requests (provider_id t) (JStr ?key) ?kt"
  proof
    assume i: "truthy ?pid \<or> truthy ?inv \<or> ?has"
    from some [OF i] obtain k where k: "status_key nd t = Some (k, ?kt)" "py_str k = ?key"
      by blast
    have "calls ?r = status_requests (provider_id t) (JStr (py_str k)) ?kt"
      using assms k(1) by (rule run_calls)
    then show "calls ?r = status_requests (provider_id t) (JStr ?key) ?kt"
      using k(2) by simp
  qed
  show ?thesis
    unfolding Let_def
    using a b c run_bounds [of prim http nd t] run_well_formed [OF assms, of http prim nd]
    by blast
qed

theorem reconciler_contains_validation_errors_witness:
  "provider_code example_tx = ''myfatoorah''
   \<and> process_notification_data guarded timeout_gateway [(''status'', JStr ''success'')] example_tx
       = \<lparr>tx = example_tx\<lparr>lifecycle :=
                \<lparr>tx_state = Error,
                 state_message = Some ''MyFatoorah: Missing payment identification in the notification.'',
                 state_changes = 1\<rparr>\<rparr>,
          calls = [],
          applied = [SetError ''MyFatoorah: Missing payment identification in the notification.''],
          raised = None\<rparr>
   \<and> process_notification_data guarded timeout_gateway [(''paymentId'', JStr ''0808'')] example_tx
       = \<lparr>tx = example_tx\<lparr>lifecycle :=
                \<lparr>tx_state = Error,
                 state_message = Some ''MyFatoorah: Failed to verify payment status.'',
                 state_changes = 1\<rparr>\<rparr>,
          calls = [example_status_request],
          applied = [SetError ''MyFatoorah: Failed to verify payment status.''],
          raised = None\<rparr>
   \<and> process_notification_data guarded timeout_gateway [(''status'', JStr ''success'')] invoiced_tx
       = \<lparr>tx = invoiced_tx\<lparr>lifecycle :=
                \<lparr>tx_state = Error,
                 state_message = Some ''MyFatoorah: Failed to verify payment status.'',
                 state_changes = 1\<rparr>\<rparr>,
          calls = [example_status_request
                     \<lparr>req_json := Some (JDict [(''Key'', JStr ''77''),
                                               (''KeyType'', JStr ''InvoiceId'')])\<rparr>],
          applied = [SetError ''MyFatoorah: Failed to verify payment status.''],
          raised = None\<rparr>
   \<and> process_notification_data guarded paid_gateway [(''paymentId'', JStr ''0808'')]
         (example_tx\<lparr>provider_id := keyless_provider\<rparr>)
       = \<lparr>tx = example_tx\<lparr>provider_id := keyless_provider, lifecycle :=
                \<lparr>tx_state = Error,
                 state_message = Some ''MyFatoorah: Failed to verify payment status.'',
                 state_changes = 1\<rparr>\<rparr>,
          calls = [],
          applied = [SetError ''MyFatoorah: Failed to verify payment status.''],
          raised = None\<rparr>"
proof -
  have h: "provider_code example_tx = ''myfatoorah''"
    "provider_code invoiced_tx = ''myfatoorah''"
    "provider_code (example_tx\<lparr>provider_id := keyless_provider\<rparr>) = ''myfatoorah''"
    by code_simp+
  let ?nd0 = "[(''status'', JStr ''success'')]" and ?nd1 = "[(''paymentId'', JStr ''0808'')]"
  have i0: "\<not> (truthy (dict_get ?nd0 ''paymentId'' JNull) \<or> truthy (dict_get ?nd0 ''InvoiceId'' JNull)
               \<or> provider_reference example_tx \<noteq> None \<and> provider_reference example_tx \<noteq> Some [])"
    by code_simp
  note n0 = reconciler_contains_validation_errors [OF h(1), of guarded timeout_gateway ?nd0,
      unfolded Let_def, THEN conjunct1, THEN mp, OF i0]
  have a: "process_notification_data guarded timeout_gateway ?nd0 example_tx
       = \<lparr>tx = example_tx\<lparr>lifecycle :=
                \<lparr>tx_state = Error,
                 state_message = Some ''MyFatoorah: Missing payment identification in the notification.'',
                 state_changes = 1\<rparr>\<rparr>,
          calls = [],
          applied = [SetError ''MyFatoorah: Missing payment identification in the notification.''],
          raised = None\<rparr>"
    unfolding n0 by code_simp
  have i1: "(truthy (dict_get ?nd1 ''paymentId'' JNull) \<or> truthy (dict_get ?nd1 ''InvoiceId'' JNull)
        \<or> provider_reference example_tx \<noteq> None \<and> provider_reference example_tx \<noteq> Some [])
      \<and> get_payment_status timeout_gateway (provider_id example_tx)
           (JStr (if truthy (dict_get ?nd1 ''paymentId'' JNull)
                  then py_str (dict_get ?nd1 ''paymentId'' JNull)
                  else if truthy (dict_get ?nd1 ''InvoiceId'' JNull)
                  then py_str (dict_get ?nd1 ''InvoiceId'' JNull)
                  else the (provider_reference example_tx)))
           (if truthy (dict_get ?nd1 ''paymentId'' JNull) then ''PaymentId'' else ''InvoiceId'')
          = Inl ValidationError"
    by code_simp
  note n1 = reconciler_contains_validation_errors [OF h(1), of guarded timeout_gateway ?nd1,
      unfolded Let_def, THEN conjunct2, THEN conjunct1, THEN mp, OF i1]
  have r1: "process_notification_data guarded timeout_gateway ?nd1 example_tx
       = \<lparr>tx = example_tx\<lparr>lifecycle :=
                \<lparr>tx_state = Error,
                 state_message = Some ''MyFatoorah: Failed to verify payment status.'',
                 state_changes = 1\<rparr>\<rparr>,
          calls = [example_status_request],
          applied = [SetError ''MyFatoorah: Failed to verify payment status.''],
          raised = None\<rparr>"
    unfolding n1 by code_simp
  have i2: "(truthy (dict_get ?nd0 ''paymentId'' JNull) \<or> truthy (dict_get ?nd0 ''InvoiceId'' JNull)
        \<or> provider_reference invoiced_tx \<noteq> None \<and> provider_reference invoiced_tx \<noteq> Some [])
      \<and> get_payment_status timeout_gateway (provider_id invoiced_tx)
           (JStr (if truthy (dict_get ?nd0 ''paymentId'' JNull)
                  then py_str (dict_get ?nd0 ''paymentId'' JNull)
                  else if truthy (dict_get ?nd0 ''InvoiceId'' JNull)
                  then py_str (dict_get ?nd0 ''InvoiceId'' JNull)
                  else the (provider_reference invoiced_tx)))
           (if truthy (dict_get ?nd0 ''paymentId'' JNull) then ''PaymentId'' else ''InvoiceId'')
          = Inl ValidationError"
    by code_simp
  note n2 = reconciler_contains_validation_errors [OF h(2), of guarded timeout_gateway ?nd0,
      unfolded Let_def, THEN conjunct2, THEN conjunct1, THEN mp, OF i2]
  have r2: "process_notification_data guarded timeout_gateway ?nd0 invoiced_tx
       = \<lparr>tx = invoiced_tx\<lparr>lifecycle :=
                \<lparr>tx_state = Error,
                 state_message = Some ''MyFatoorah: Failed to verify payment status.'',
                 state_changes = 1\<rparr>\<rparr>,
          calls = [example_status_request
                     \<lparr>req_json := Some (JDict [(''Key'', JStr ''77''),
                                               (''KeyType'', JStr ''InvoiceId'')])\<rparr>],
          applied = [SetError ''MyFatoorah: Failed to verify payment status.''],
          raised = None\<rparr>"
    unfolding n2 by code_simp
  have i3: "(truthy (dict_get ?nd1 ''paymentId'' JNull) \<or> truthy (dict_get ?nd1 ''InvoiceId'' JNull)
        \<or> provider_reference (example_tx\<lparr>provider_id := keyless_provider\<rparr>) \<noteq> None \<and> provider_reference (example_tx\<lparr>provider_id := keyless_provider\<rparr>) \<noteq> Some [])
      \<and> get_payment_status paid_gateway (provider_id (example_tx\<lparr>provider_id := keyless_provider\<rparr>))
           (JStr (if truthy (dict_get ?nd1 ''paymentId'' JNull)
                  then py_str (dict_get ?nd1 ''paymentId'' JNull)
                  else if truthy (dict_get ?nd1 ''InvoiceId'' JNull)
                  then py_str (dict_get ?nd1 ''InvoiceId'' JNull)
                  else the (provider_reference (example_tx\<lparr>provider_id := keyless_provider\<rparr>))))
           (if truthy (dict_get ?nd1 ''paymentId'' JNull) then ''PaymentId'' else ''InvoiceId'')
          = Inl ValidationError"
    by code_simp
  note n3 = reconciler_contains_validation_errors [OF h(3), of guarded paid_gateway ?nd1,
      unfolded Let_def, THEN conjunct2, THEN conjunct1, THEN mp, OF i3]
  have r3: "process_notification_data guarded paid_gateway ?nd1 (example_tx\<lparr>provider_id := keyless_provider\<rparr>)
       = \<lparr>tx = example_tx\<lparr>provider_id := keyless_provider, lifecycle :=
                \<lparr>tx_state = Error,
                 state_message = Some ''MyFatoorah: Failed to verify payment status.'',
                 state_changes = 1\<rparr>\<rparr>,
          calls = [],
          applied = [SetError ''MyFatoorah: Failed to verify payment status.''],
          raised = None\<rparr>"
    unfolding n3 by code_simp
  show ?thesis using h(1) a r1 r2 r3 by simp
qed

text \<open>
  \<^bold>\<open>C6\<close> does not hold of the code where it says the verifier never throws: with a
  secret configured, a supplied signature holding a character outside ASCII makes
  \<open>hmac.compare_digest\<close> raise \<open>TypeError\<close>, whatever the body and the MAC are.
\<close>

theorem verifier_raises_on_non_ascii_signature:
  "myfatoorah_verify_webhook_signature mac example_provider raw [CHR 0xE9] = Inl TypeError"
  by (simp add: myfatoorah_verify_webhook_signature_def compare_digest_def is_ascii_def
      field_truthy_def example_provider_def Let_def)

text \<open>
  \<^bold>\<open>X1.\<close>  The verifier returns true exactly when the webhook secret is set and not
  empty and the supplied signature is the hex-encoded MAC of the raw body under the
  encoded secret; it returns false for every unset or empty secret, whatever the
  signature; and for a signature of ASCII characters it always returns a boolean.
\<close>

theorem verifier_accepts_exactly_the_mac:
  "let verdict = myfatoorah_verify_webhook_signature mac p raw signature;
       secret = myfatoorah_webhook_secret p
   in (verdict = Inr True \<longleftrightarrow>
         field_truthy secret \<and> signature = hexdigest (mac (encode_utf8 (the secret)) raw))
    \<and> (\<not> field_truthy secret \<longrightarrow> verdict = Inr False)
    \<and> (is_ascii signature \<longrightarrow> verdict = Inr True \<or> verdict = Inr False)"
  unfolding Let_def
  using verify_true_iff [of mac p raw signature] verify_unset [of p mac raw signature]
    verify_ascii_returns [of signature mac p raw]
  by auto

theorem verifier_accepts_exactly_the_mac_witness:
  "field_truthy (myfatoorah_webhook_secret example_provider)
   \<and> hexdigest (example_mac (encode_utf8 (the (myfatoorah_webhook_secret example_provider)))
        example_body) = ''ab01''
   \<and> myfatoorah_verify_webhook_signature example_mac example_provider example_body ''ab01''
       = Inr True
   \<and> \<not> field_truthy (myfatoorah_webhook_secret (example_provider\<lparr>myfatoorah_webhook_secret := Some []\<rparr>))
   \<and> myfatoorah_verify_webhook_signature example_mac
        (example_provider\<lparr>myfatoorah_webhook_secret := Some []\<rparr>) example_body ''ab01''
       = Inr False"
proof -
  have s: "field_truthy (myfatoorah_webhook_secret example_provider)" by code_simp
  have h: "hexdigest (example_mac (encode_utf8 (the (myfatoorah_webhook_secret example_provider)))
        example_body) = ''ab01''" by code_simp
  have u: "\<not> field_truthy (myfatoorah_webhook_secret
                (example_provider\<lparr>myfatoorah_webhook_secret := Some []\<rparr>))" by code_simp
  have a: "myfatoorah_verify_webhook_signature example_mac example_provider example_body ''ab01''
       = Inr True"
    using verifier_accepts_exactly_the_mac [of example_mac example_provider example_body "''ab01''"]
      s h by (simp add: Let_def)
  have b: "myfatoorah_verify_webhook_signature example_mac
        (example_provider\<lparr>myfatoorah_webhook_secret := Some []\<rparr>) example_body ''ab01''
       = Inr False"
    using verifier_accepts_exactly_the_mac
      [of example_mac "example_provider\<lparr>myfatoorah_webhook_secret := Some []\<rparr>"
          example_body "''ab01''"] u
    by (simp add: Let_def)
  show ?thesis using s h u a b by simp
qed

text \<open>
  \<^bold>\<open>X2.\<close>  A webhook request with a JSON object body whose signature header holds a
  character outside ASCII, met by a first candidate provider with a secret, ends in the
  verifier's \<open>TypeError\<close>: the handler returns no response of its own, neither 401 nor
  200.
\<close>

theorem webhook_fails_on_non_ascii_signature:
  assumes "json_loads w (raw_body req) = Some (JDict ed)"
    and "webhook_providers (providers w) = p # ps"
    and "field_truthy (myfatoorah_webhook_secret p)"
    and "\<not> is_ascii (webhook_signature req)"
  shows "fst (myfatoorah_webhook w req) = Inl TypeError"
proof -
  have "myfatoorah_verify_webhook_signature (hmac_sha256 w) p (raw_body req)
          (webhook_signature req) = Inl TypeError"
    using assms(3,4)
    by (simp add: myfatoorah_verify_webhook_signature_def compare_digest_def Let_def)
  then show ?thesis
    using assms(1,2) by (simp add: myfatoorah_webhook_def Let_def bind_def)
qed

theorem webhook_fails_on_non_ascii_signature_witness:
  "json_loads (example_world [example_provider]) (raw_body (example_request [CHR 0xE9]))
     = Some (JDict example_event)
   \<and> webhook_providers (providers (example_world [example_provider])) = [example_provider]
   \<and> field_truthy (myfatoorah_webhook_secret example_provider)
   \<and> \<not> is_ascii (webhook_signature (example_request [CHR 0xE9]))
   \<and> fst (myfatoorah_webhook (example_world [example_provider]) (example_request [CHR 0xE9]))
       = Inl TypeError"
proof -
  let ?w = "example_world [example_provider]" and ?r = "example_request [CHR 0xE9]"
  have j: "json_loads ?w (raw_body ?r) = Some (JDict example_event)" by code_simp
  have c: "webhook_providers (providers ?w) = [example_provider]" by code_simp
  have s: "field_truthy (myfatoorah_webhook_secret example_provider)" by code_simp
  have n: "\<not> is_ascii (webhook_signature ?r)" by code_simp
  show ?thesis
    using webhook_fails_on_non_ascii_signature [OF j c s n] j c s n by simp
qed

text \<open>
  \<^bold>\<open>X4.\<close>  A webhook request whose body is JSON but not an object ends in the
  \<open>AttributeError\<close> of the first \<open>event_data.get\<close>, before any provider is looked up or
  any signature verified, and changes nothing.
\<close>

theorem webhook_fails_on_non_object_body:
  assumes "json_loads w (raw_body req) = Some v" and "\<not> is_object v"
  shows "myfatoorah_webhook w req
         = (Inl AttributeError, \<lparr>stored = transactions w, called = [], posted = []\<rparr>)"
  using assms by (cases v) (simp_all add: myfatoorah_webhook_def)

theorem webhook_fails_on_non_object_body_witness:
  "json_loads ((example_world [example_provider])\<lparr>json_loads := \<lambda>s. Some (JList [])\<rparr>)
      (raw_body (example_request ''ab01'')) = Some (JList [])
   \<and> \<not> is_object (JList [])
   \<and> fst (myfatoorah_webhook
            ((example_world [example_provider])\<lparr>json_loads := \<lambda>s. Some (JList [])\<rparr>)
            (example_request ''ab01'')) = Inl AttributeError"
proof -
  let ?w = "(example_world [example_provider])\<lparr>json_loads := \<lambda>s. Some (JList [])\<rparr>"
  have j: "json_loads ?w (raw_body (example_request ''ab01'')) = Some (JList [])" by simp
  have n: "\<not> is_object (JList [])" by simp
  show ?thesis
    using webhook_fails_on_non_object_body [OF j n] j n by simp
qed

text \<open>
  \<^bold>\<open>C7.\<close>  Reconciliation is idempotent under duplicate delivery: when the transition
  primitives are no-ops on repeated application, a second run of the reconciler on the
  transaction the first run left, with the same notification and the same gateway
  replies, is the first run again: the same status call, the same transition requested,
  the same outcome, and the transaction unchanged by it.
\<close>

theorem reconciler_idempotent:
  assumes "\<forall>a l. prim a (prim a l) = prim a l"
  shows "process_notification_data prim http nd (tx (process_notification_data prim http nd t))
         = process_notification_data prim http nd t"
proof (cases rule: run_cases [where t = t and prim = prim and http = http and nd = nd])
  case foreign
  then show ?thesis by simp
next
  case no_key
  let ?t' = "tx (process_notification_data prim http nd t)"
  have r1: "process_notification_data prim http nd t =
     \<lparr>tx = t\<lparr>lifecycle := prim (SetError ''MyFatoorah: Missing payment identification in the notification.'') (lifecycle t)\<rparr>,
      calls = [],
      applied = [SetError ''MyFatoorah: Missing payment identification in the notification.''],
      raised = None\<rparr>"
    using run_without_key [OF no_key] .
  have "provider_code ?t' = ''myfatoorah''" "status_key nd ?t' = None"
    using no_key r1 status_key_same_reference [of ?t' t nd] by simp_all
  from run_without_key [OF this, of prim http] show ?thesis
    using r1 assms by simp
next
  case (gateway_error key kt)
  let ?t' = "tx (process_notification_data prim http nd t)"
  have r1: "process_notification_data prim http nd t =
     \<lparr>tx = t\<lparr>lifecycle := prim (SetError ''MyFatoorah: Failed to verify payment status.'') (lifecycle t)\<rparr>,
      calls = status_requests (provider_id t) (JStr (py_str key)) kt,
      applied = [SetError ''MyFatoorah: Failed to verify payment status.''],
      raised = None\<rparr>"
    using run_with_gateway_error [OF gateway_error] .
  have "provider_code ?t' = ''myfatoorah''" "status_key nd ?t' = Some (key, kt)"
    "get_payment_status http (provider_id ?t') (JStr (py_str key)) kt = Inl ValidationError"
    using gateway_error r1 status_key_same_reference [of ?t' t nd] by simp_all
  from run_with_gateway_error [OF this, of prim] show ?thesis
    using r1 assms by simp
next
  case (escaped key kt e)
  then show ?thesis by simp
next
  case (reply key kt sd)
  let ?c = "status_requests (provider_id t) (JStr (py_str key)) kt"
  let ?r1 = "process_status prim sd \<lparr>tx = t, calls = ?c, applied = [], raised = None\<rparr>"
  have r1: "process_notification_data prim http nd t = ?r1"
    using run_with_reply [OF reply] .
  have frame: "provider_code (tx ?r1) = ''myfatoorah''" "provider_id (tx ?r1) = provider_id t"
    using reply by (simp_all add: process_status_frame)
  have key: "status_key nd (tx ?r1) = Some (key, kt)"
  proof (cases rule: process_status_cases [where prim = prim and sd = sd])
    case (not_read e)
    then show ?thesis using reply by simp
  next
    case (not_mapped e d)
    then show ?thesis using status_key_backfill [OF reply(2)] by simp
  next
    case (mapped a d)
    let ?b = "backfill (dict_get d ''InvoiceId'' JNull) \<lparr>tx = t, calls = ?c, applied = [], raised = None\<rparr>"
    have "status_key nd (tx (set_state prim a ?b)) = status_key nd (tx ?b)"
      by (rule status_key_same_reference) simp
    then show ?thesis using mapped status_key_backfill [OF reply(2)] by simp
  qed
  have "process_notification_data prim http nd (tx ?r1) =
          process_status prim sd \<lparr>tx = tx ?r1, calls = ?c, applied = [], raised = None\<rparr>"
    using run_with_reply [OF frame(1) key, of http sd prim] reply(3) frame(2) by simp
  then show ?thesis
    using r1 process_status_twice [OF assms, of sd t ?c] by simp
qed

theorem reconciler_idempotent_witness:
  "(\<forall>a l. guarded a (guarded a l) = guarded a l)
   \<and> process_notification_data guarded paid_gateway [(''paymentId'', JStr ''0808'')]
       (tx (process_notification_data guarded paid_gateway
              [(''paymentId'', JStr ''0808'')] example_tx))
     = \<lparr>tx = example_tx\<lparr>provider_reference := Some ''77'',
              lifecycle := \<lparr>tx_state = Done, state_message = None, state_changes = 1\<rparr>\<rparr>,
        calls = [example_status_request],
        applied = [SetDone], raised = None\<rparr>"
proof -
  have idem: "\<forall>a l. guarded a (guarded a l) = guarded a l"
    by (simp add: guarded_idem)
  from reconciler_idempotent [OF idem, of paid_gateway "[(''paymentId'', JStr ''0808'')]" example_tx]
  show ?thesis using idem by (simp only: paid_run simp_thms)
qed

text \<open>
  \<^bold>\<open>C8.\<close>  The run of the reconciler does not depend on the \<open>status\<close> entry the redirect
  endpoints put into the notification: two notifications that agree on every other key
  give, on the same transaction and with the same gateway, the same run (the same
  status call, the same transition and message, the same transaction afterwards).
\<close>

theorem reconciler_ignores_redirect_status:
  assumes "\<forall>k. k \<noteq> ''status'' \<longrightarrow> map_of nd1 k = map_of nd2 k"
  shows "process_notification_data prim http nd1 t = process_notification_data prim http nd2 t"
proof -
  have "status_key nd1 t = status_key nd2 t"
    using assms by (intro status_key_agree) simp_all
  then show ?thesis by (simp add: process_notification_data_def Let_def)
qed

theorem reconciler_ignores_redirect_status_witness:
  "process_notification_data guarded paid_gateway
      [(''paymentId'', JStr ''0808''), (''status'', JStr ''success'')] example_tx
   = process_notification_data guarded paid_gateway
      [(''paymentId'', JStr ''0808''), (''status'', JStr ''error'')] example_tx"
  by (rule reconciler_ignores_redirect_status) (intro allI impI, rule map_of_other_entry)

text \<open>
  \<^bold>\<open>X3.\<close>  The two redirect endpoints do the same: on the same query parameters, in
  the same world, the return endpoint and the error endpoint give the same response and
  leave the same transactions, status calls and notes.
\<close>

theorem redirect_endpoints_agree:
  "myfatoorah_return w kwargs = myfatoorah_error w kwargs"
proof (cases "map_of kwargs ''paymentId''")
  case None
  then show ?thesis by (simp add: myfatoorah_return_def myfatoorah_error_def redirect_endpoint_def)
next
  case (Some payment_id)
  let ?nd = "\<lambda>s. [(''paymentId'', JStr payment_id), (''status'', JStr s)]"
  have l: "get_tx_from_notification_data (network w) (providers w) (transactions w) []
             ''myfatoorah'' (?nd ''success'')
           = get_tx_from_notification_data (network w) (providers w) (transactions w) []
             ''myfatoorah'' (?nd ''error'')"
    by (rule locate_agree) simp_all
  have h: "handle_notification_data w found (?nd ''success'')
           = handle_notification_data w found (?nd ''error'')" for found
    by (rule handle_agree) simp_all
  have "locate_and_handle w (?nd ''success'') = locate_and_handle w (?nd ''error'')"
    by (simp only: locate_and_handle_def l h)
  then show ?thesis
    using Some
    by (simp add: myfatoorah_return_def myfatoorah_error_def redirect_endpoint_def Let_def)
qed

text \<open>
  \<^bold>\<open>C9.\<close>  A run of the reconciler leaves a non-empty \<open>provider_reference\<close> as it is,
  whatever \<open>InvoiceId\<close> the reply carries.  The field changes only when it was unset or
  empty and the status call returned a reply with a non-empty \<open>InvoiceId\<close>, and then it
  holds that \<open>InvoiceId\<close> as a string.  The reference, the id and the provider of the
  transaction never change.
\<close>

theorem reconciler_backfills_only_unset_reference:
  "let r = process_notification_data prim http nd t
   in (field_truthy (provider_reference t) \<longrightarrow> provider_reference (tx r) = provider_reference t)
    \<and> (provider_reference (tx r) \<noteq> provider_reference t \<longrightarrow>
          \<not> field_truthy (provider_reference t)
          \<and> (\<exists>key kt d. status_key nd t = Some (key, kt)
                \<and> get_payment_status http (provider_id t) (JStr (py_str key)) kt = Inr (JDict d)
                \<and> truthy (dict_get d ''InvoiceId'' JNull)
                \<and> provider_reference (tx r) = Some (py_str (dict_get d ''InvoiceId'' JNull))))
    \<and> reference (tx r) = reference t \<and> tx_id (tx r) = tx_id t
    \<and> provider_code (tx r) = provider_code t \<and> provider_id (tx r) = provider_id t"
proof -
  let ?r = "process_notification_data prim http nd t"
  have kept: "field_truthy (provider_reference t) \<longrightarrow>
                provider_reference (tx ?r) = provider_reference t"
    using run_provider_reference [of prim http nd t] by blast
  have changed: "provider_reference (tx ?r) \<noteq> provider_reference t \<longrightarrow>
          \<not> field_truthy (provider_reference t)
          \<and> (\<exists>key kt d. status_key nd t = Some (key, kt)
                \<and> get_payment_status http (provider_id t) (JStr (py_str key)) kt = Inr (JDict d)
                \<and> truthy (dict_get d ''InvoiceId'' JNull)
                \<and> provider_reference (tx ?r) = Some (py_str (dict_get d ''InvoiceId'' JNull)))"
    using run_provider_reference [of prim http nd t] by blast
  show ?thesis
    unfolding Let_def using kept changed run_frame [of prim http nd t] by blast
qed

theorem reconciler_backfills_only_unset_reference_witness:
  "field_truthy (provider_reference (example_tx\<lparr>provider_reference := Some ''990''\<rparr>))
   \<and> dict_get (entry_fields paid_data) ''InvoiceId'' JNull = JInt 77
   \<and> provider_reference (tx (process_notification_data guarded paid_gateway
        [(''paymentId'', JStr ''0808'')] (example_tx\<lparr>provider_reference := Some ''990''\<rparr>)))
       = Some ''990''"
proof -
  have h: "field_truthy (provider_reference (example_tx\<lparr>provider_reference := Some ''990''\<rparr>))"
    by code_simp
  have i: "dict_get (entry_fields paid_data) ''InvoiceId'' JNull = JInt 77" by code_simp
  show ?thesis
    using reconciler_backfills_only_unset_reference
      [of guarded paid_gateway "[(''paymentId'', JStr ''0808'')]"
          "example_tx\<lparr>provider_reference := Some ''990''\<rparr>"] h i
    by (simp add: Let_def)
qed

text \<open>
  \<^bold>\<open>C10.\<close>  Invoice creation, once the \<open>SendPayment\<close> call has returned its data, raises
  \<open>ValidationError\<close> exactly when the data has no \<open>InvoiceURL\<close> (absent, null or empty),
  and then leaves the transaction, its \<open>provider_reference\<close> included, as it was.  With
  an \<open>InvoiceURL\<close> it returns the address and the reference, and sets
  \<open>provider_reference\<close> to the \<open>InvoiceId\<close> as a string, or to the empty string when the
  data carries no \<open>InvoiceId\<close>.  An exception of the call itself leaves the method as it
  is, the transaction unchanged.
\<close>

theorem invoice_creation_requires_url:
  assumes "provider_code t = ''myfatoorah''"
  shows "let out = get_specific_processing_values http base payload t;
             sent = myfatoorah_make_request http (provider_id t) ''/v2/SendPayment'' payload ''POST''
         in (\<forall>e. sent = Inl e \<longrightarrow> out = (Inl e, t))
          \<and> (\<forall>d. sent = Inr (JDict d) \<longrightarrow>
               (let invoice_url = dict_get d ''InvoiceURL'' JNull;
                    invoice_id = dict_get d ''InvoiceId'' JNull
                in (fst out = Inl ValidationError \<longleftrightarrow> \<not> truthy invoice_url)
                 \<and> (\<not> truthy invoice_url \<longrightarrow> snd out = t)
                 \<and> (truthy invoice_url \<longrightarrow>
                      fst out = Inr [(''api_url'', invoice_url), (''reference'', JStr (reference t))])
                 \<and> (truthy invoice_url \<and> truthy invoice_id \<longrightarrow>
                      snd out = t\<lparr>provider_reference := Some (py_str invoice_id)\<rparr>)
                 \<and> (truthy invoice_url \<and> \<not> truthy invoice_id \<longrightarrow>
                      snd out = t\<lparr>provider_reference := Some []\<rparr>)))"
  using assms
  by (auto simp: get_specific_processing_values_def bind_def Let_def)

theorem invoice_creation_requires_url_witness:
  "provider_code example_tx = ''myfatoorah''
   \<and> myfatoorah_make_request (invoice_gateway (JDict [(''InvoiceURL'', JStr ''https://pay/77'')]))
        (provider_id example_tx) ''/v2/SendPayment'' JNull ''POST''
       = Inr (JDict [(''InvoiceURL'', JStr ''https://pay/77'')])
   \<and> snd (get_specific_processing_values
            (invoice_gateway (JDict [(''InvoiceURL'', JStr ''https://pay/77'')])) [] JNull example_tx)
       = example_tx\<lparr>provider_reference := Some []\<rparr>
   \<and> myfatoorah_make_request (invoice_gateway (JDict [(''InvoiceId'', JInt 77)]))
        (provider_id example_tx) ''/v2/SendPayment'' JNull ''POST''
       = Inr (JDict [(''InvoiceId'', JInt 77)])
   \<and> get_specific_processing_values (invoice_gateway (JDict [(''InvoiceId'', JInt 77)])) []
        JNull example_tx
       = (Inl ValidationError, example_tx)"
proof -
  let ?with_url = "invoice_gateway (JDict [(''InvoiceURL'', JStr ''https://pay/77'')])"
  let ?without = "invoice_gateway (JDict [(''InvoiceId'', JInt 77)])"
  have h: "provider_code example_tx = ''myfatoorah''" by code_simp
  have s1: "myfatoorah_make_request ?with_url (provider_id example_tx) ''/v2/SendPayment''
              JNull ''POST'' = Inr (JDict [(''InvoiceURL'', JStr ''https://pay/77'')])"
    by code_simp
  have s2: "myfatoorah_make_request ?without (provider_id example_tx) ''/v2/SendPayment''
              JNull ''POST'' = Inr (JDict [(''InvoiceId'', JInt 77)])"
    by code_simp
  have g: "truthy (dict_get [(''InvoiceURL'', JStr ''https://pay/77'')] ''InvoiceURL'' JNull)"
    "\<not> truthy (dict_get [(''InvoiceURL'', JStr ''https://pay/77'')] ''InvoiceId'' JNull)"
    "\<not> truthy (dict_get [(''InvoiceId'', JInt 77)] ''InvoiceURL'' JNull)"
    by code_simp+
  have a: "snd (get_specific_processing_values ?with_url [] JNull example_tx)
             = example_tx\<lparr>provider_reference := Some []\<rparr>"
    using invoice_creation_requires_url [OF h, of ?with_url "[]" JNull] s1 g by (simp add: Let_def)
  have b: "get_specific_processing_values ?without [] JNull example_tx
             = (Inl ValidationError, example_tx)"
    using invoice_creation_requires_url [OF h, of ?without "[]" JNull] s2 g by (simp add: Let_def prod_eq_iff)
  show ?thesis using h s1 s2 a b by simp
qed

end
